theory Spec2Isabelle
  imports Main "HOL-Library.Word" "HOL-Library.Sublist"
begin

section \<open>The kmd client of py-algorand-sdk (algosdk/kmd.py)\<close>

text \<open>
  A shallow embedding of \<^verbatim>\<open>algosdk/kmd.py\<close>: the class \<^verbatim>\<open>KMDClient\<close>, its request
  primitive \<^verbatim>\<open>kmd_request\<close> and the twenty methods built on it.

  The module talks to four collaborators whose code is outside the file: the HTTP
  transport (\<^verbatim>\<open>urllib\<close>), the JSON and base64 codecs of the standard library, the
  address and msgpack codec (\<^verbatim>\<open>encoding\<close>) and the constants module. They are not
  modelled; they are the fields of a record of functions that every operation
  takes as its first argument, so every theorem below holds for whatever these
  collaborators compute. A collaborator is total where its argument's type makes the
  call well defined (an encoder), and partial (\<open>None\<close>: it raises) where a string,
  a byte sequence or an attribute may be invalid (a decoder).
\<close>

subsection \<open>Values\<close>

type_synonym bytes = "8 word list"

text \<open>
  What \<^verbatim>\<open>json.loads\<close> returns and \<^verbatim>\<open>json.dumps\<close> accepts. A \<^verbatim>\<open>dict\<close> is an
  association list in insertion order; \<open>JObj []\<close> is the empty dict \<^verbatim>\<open>{}\<close>.
  A Python float is carried as its 64 bits.
\<close>

datatype json =
    JNull
  | JBool bool
  | JInt int
  | JFloat "64 word"
  | JStr string
  | JArr "json list"
  | JObj "(string \<times> json) list"

text \<open>
  The exceptions a call can end with. \<open>KMDHTTPError\<close> carries the argument it was
  raised with: the value of the \<^verbatim>\<open>message\<close> field, or the body text as a string.
\<close>

datatype error =
    KMDHTTPError json
  | KeyError string
  | TypeError
  | ValueError
  | UnicodeDecodeError
  | JSONDecodeError
  | URLError
  | BinasciiError
  | AddressError
  | MsgpackError
  | AttributeError

subsection \<open>Python's operations on a decoded JSON value\<close>

text \<open>\<^verbatim>\<open>v[k]\<close> for a string key \<open>k\<close>: only a dict can be indexed by a string.\<close>

fun getitem :: "json \<Rightarrow> string \<Rightarrow> error + json" where
  "getitem (JObj kvs) k = (case map_of kvs k of None \<Rightarrow> Inl (KeyError k) | Some v \<Rightarrow> Inr v)"
| "getitem _ k = Inl TypeError"

text \<open>
  \<^verbatim>\<open>k in v\<close> for a string \<open>k\<close>: a key of a dict, an element of a list, a substring
  of a string; the other values are not containers.
\<close>

fun contains :: "string \<Rightarrow> json \<Rightarrow> error + bool" where
  "contains k (JObj kvs) = Inr (k \<in> fst ` set kvs)"
| "contains k (JArr xs) = Inr (JStr k \<in> set xs)"
| "contains k (JStr s) = Inr (sublist k s)"
| "contains k _ = Inl TypeError"

text \<open>Truth value testing, as \<^verbatim>\<open>if v:\<close> does it.\<close>

fun truthy :: "json \<Rightarrow> bool" where
  "truthy JNull = False"
| "truthy (JBool b) = b"
| "truthy (JInt i) = (i \<noteq> 0)"
| "truthy (JFloat w) = (take_bit 63 w \<noteq> 0)"
| "truthy (JStr s) = (s \<noteq> [])"
| "truthy (JArr xs) = (xs \<noteq> [])"
| "truthy (JObj kvs) = (kvs \<noteq> [])"

text \<open>
  \<^verbatim>\<open>for p in v\<close>: the elements of a list, the one-character strings of a string,
  the keys of a dict; the other values are not iterable.
\<close>

fun iterate :: "json \<Rightarrow> error + json list" where
  "iterate (JArr xs) = Inr xs"
| "iterate (JStr s) = Inr (map (\<lambda>c. JStr [c]) s)"
| "iterate (JObj kvs) = Inr (map (\<lambda>kv. JStr (fst kv)) kvs)"
| "iterate _ = Inl TypeError"

subsection \<open>The transport and the other collaborators\<close>

text \<open>
  \<^verbatim>\<open>urllib.request.Request\<close> as \<^verbatim>\<open>kmd_request\<close> builds it. Its data is \<^verbatim>\<open>None\<close>,
  the UTF-8 bytes of a JSON text, or a dict that \<^verbatim>\<open>kmd_request\<close> passed on as it got
  it. The constructor raises \<^verbatim>\<open>ValueError\<close> for a URL in which it finds no type (no
  scheme such as \<^verbatim>\<open>http\<close>); how it reads the type off the URL is \<open>url_type\<close> below.
\<close>

datatype payload = NoData | Unserialised "(string \<times> json) list" | Body bytes

record Request =
  req_url :: string
  req_headers :: "(string \<times> string) list"
  req_method :: string
  req_data :: payload

text \<open>
  What \<^verbatim>\<open>urlopen\<close> does: it returns a response (a 2xx status) whose body is read,
  raises \<^verbatim>\<open>HTTPError\<close> with the status and a body to read, or raises another
  transport error.
\<close>

datatype outcome = Response bytes | HTTPError int bytes | TransportError

text \<open>
  The collaborators, and the three constants of \<^verbatim>\<open>algosdk/constants.py\<close> the module
  reads. \<open>'w\<close> is the state of the world behind the transport (the daemon), \<open>'o\<close>
  the type of the transaction objects the msgpack codec encodes and decodes.
\<close>

record ('w, 'o) collaborators =
  url_type :: "string \<Rightarrow> string option"
  urlopen :: "Request \<Rightarrow> int \<Rightarrow> 'w \<Rightarrow> outcome \<times> 'w"
  urlencode :: "(string \<times> string) list \<Rightarrow> string"
  json_dumps :: "(string \<times> json) list \<Rightarrow> string"
  json_loads :: "string \<Rightarrow> json option"
  utf8_encode :: "string \<Rightarrow> bytes"
  utf8_decode :: "bytes \<Rightarrow> string option"
  b64encode :: "bytes \<Rightarrow> string"
  b64decode :: "string \<Rightarrow> bytes option"
  encode_address :: "bytes \<Rightarrow> string"
  decode_address :: "string \<Rightarrow> bytes option"
  msgpack_encode :: "'o \<Rightarrow> string"
  msgpack_decode :: "json \<Rightarrow> 'o option"
  json_dictify :: "'o \<Rightarrow> json"
  no_auth :: "string list"
  unversioned_paths :: "string list"
  kmd_auth_header :: string

subsection \<open>The client and the state its methods run in\<close>

record KMDClient =
  kmd_token :: string
  kmd_address :: string

definition KMDClient_init :: "string \<Rightarrow> string \<Rightarrow> KMDClient" where
  "KMDClient_init token address = \<lparr>kmd_token = token, kmd_address = address\<rparr>"

text \<open>
  A multisig transaction as the module uses it: the attributes \<^verbatim>\<open>transaction\<close>
  and \<^verbatim>\<open>multisig\<close>, and \<^verbatim>\<open>auth_addr\<close>, which an object may lack
  (\<^verbatim>\<open>hasattr\<close>) and which may be \<^verbatim>\<open>None\<close>.
\<close>

datatype 'a attribute = Missing | Attr 'a

record 'o MultisigTransaction =
  transaction :: 'o
  multisig :: 'o
  auth_addr :: "string option attribute"

text \<open>
  The state: the client object, the world behind the transport, the objects of the
  caller that a method is handed by reference, and the requests handed to
  \<^verbatim>\<open>urlopen\<close> so far, each with its timeout (a trace; nothing reads it).
\<close>

record ('w, 'o) state =
  self :: KMDClient
  world :: 'w
  heap :: "nat \<Rightarrow> 'o MultisigTransaction option"
  sent :: "(Request \<times> int) list"

subsection \<open>kmd\_request\<close>

definition api_version_path_prefix :: string where
  "api_version_path_prefix = ''/v1''"

text \<open>
  Lines 49 to 52, and the first argument of line 57: the URL of the request. The
  membership test reads the path the caller gave.
\<close>

definition request_url ::
  "('w, 'o) collaborators \<Rightarrow> KMDClient \<Rightarrow> string \<Rightarrow> (string \<times> string) list option \<Rightarrow> string" where
  "request_url E client requrl params =
    (let requrl = (if requrl \<notin> set (unversioned_paths E)
                   then api_version_path_prefix @ requrl else requrl);
         requrl = (case params of
                     None \<Rightarrow> requrl
                   | Some ps \<Rightarrow> if ps \<noteq> [] then requrl @ ''?'' @ urlencode E ps else requrl)
     in kmd_address client @ requrl)"

text \<open>
  Lines 44 to 58: the request \<^verbatim>\<open>kmd_request\<close> builds from its arguments and the
  client, or the \<^verbatim>\<open>ValueError\<close> of the constructor at line 56. A \<^verbatim>\<open>data\<close> that is
  false is not serialised (line 53) and is handed to the constructor as it is
  (line 57).
\<close>

definition build_request ::
  "('w, 'o) collaborators \<Rightarrow> KMDClient \<Rightarrow> string \<Rightarrow> string \<Rightarrow> (string \<times> string) list option \<Rightarrow>
   (string \<times> json) list option \<Rightarrow> error + Request" where
  "build_request E client method requrl params data =
    (let header = (if requrl \<in> set (no_auth E) then []
                   else [(kmd_auth_header E, kmd_token client)]);
         url = request_url E client requrl params;
         data = (case data of
                   None \<Rightarrow> NoData
                 | Some d \<Rightarrow> if d \<noteq> [] then Body (utf8_encode E (json_dumps E d))
                            else Unserialised d)
     in if url_type E url = None then Inl ValueError
        else Inr \<lparr>req_url = url, req_headers = header, req_method = method, req_data = data\<rparr>)"

text \<open>
  Line 65: what the statement inside the inner \<^verbatim>\<open>try\<close> raises. It is a \<^verbatim>\<open>raise\<close>,
  so it always raises: the failure of \<^verbatim>\<open>json.loads\<close>, the failure of the subscript,
  or the \<^verbatim>\<open>KMDHTTPError\<close> with the message that the statement was written to raise.
\<close>

definition raised_in_try :: "('w, 'o) collaborators \<Rightarrow> string \<Rightarrow> error" where
  "raised_in_try E e =
     (case json_loads E e of
        None \<Rightarrow> JSONDecodeError
      | Some v \<Rightarrow> (case getitem v ''message'' of Inl x \<Rightarrow> x | Inr m \<Rightarrow> KMDHTTPError m))"

text \<open>
  Lines 66 and 67: the bare \<^verbatim>\<open>except:\<close> catches whatever line 65 raised, the
  \<^verbatim>\<open>KMDHTTPError\<close> with the message included, and raises \<^verbatim>\<open>KMDHTTPError\<close> with the
  text of the body.
\<close>

definition bare_except :: "error \<Rightarrow> string \<Rightarrow> error" where
  "bare_except raised e = KMDHTTPError (JStr e)"

text \<open>
  Lines 56 to 68: the constructor, the round trip and the decoding of what comes back.
  The handler of \<^verbatim>\<open>HTTPError\<close> decodes the body outside its inner \<^verbatim>\<open>try\<close>, so a
  body that is not UTF-8 ends the call with \<^verbatim>\<open>UnicodeDecodeError\<close>.
\<close>

definition kmd_request ::
  "('w, 'o) collaborators \<Rightarrow> string \<Rightarrow> string \<Rightarrow> (string \<times> string) list option \<Rightarrow>
   (string \<times> json) list option \<Rightarrow> int \<Rightarrow> ('w, 'o) state \<Rightarrow> (error + json) \<times> ('w, 'o) state" where
  "kmd_request E method requrl params data timeout s =
    (case build_request E (self s) method requrl params data of
       Inl e \<Rightarrow> (Inl e, s)
     | Inr req \<Rightarrow>
         (let (resp, w) = urlopen E req timeout (world s);
              s = s\<lparr>world := w, sent := sent s @ [(req, timeout)]\<rparr>
          in case resp of
               HTTPError code body \<Rightarrow>
                 (case utf8_decode E body of
                    None \<Rightarrow> (Inl UnicodeDecodeError, s)
                  | Some e \<Rightarrow> (Inl (bare_except (raised_in_try E e) e), s))
             | TransportError \<Rightarrow> (Inl URLError, s)
             | Response body \<Rightarrow>
                 (case utf8_decode E body of
                    None \<Rightarrow> (Inl UnicodeDecodeError, s)
                  | Some t \<Rightarrow>
                      (case json_loads E t of
                         None \<Rightarrow> (Inl JSONDecodeError, s)
                       | Some v \<Rightarrow> (Inr v, s)))))"

subsection \<open>The methods\<close>

text \<open>
  The keyword arguments a method passes through to \<^verbatim>\<open>kmd_request\<close>: \<^verbatim>\<open>params\<close>
  and \<^verbatim>\<open>timeout\<close> (\<open>None\<close>: not given, so the default of \<^verbatim>\<open>kmd_request\<close> applies).
\<close>

record kwargs =
  kw_params :: "(string \<times> string) list option"
  kw_timeout :: "int option"

definition timeout_of :: "kwargs \<Rightarrow> int" where
  "timeout_of kw = (case kw_timeout kw of None \<Rightarrow> 30 | Some t \<Rightarrow> t)"

text \<open>What a method does with the value \<^verbatim>\<open>kmd_request\<close> returned; an exception passes through.\<close>

definition returning ::
  "(error + 'a) \<times> 's \<Rightarrow> ('a \<Rightarrow> error + 'b) \<Rightarrow> (error + 'b) \<times> 's" where
  "returning r f = (case r of (Inl e, s) \<Rightarrow> (Inl e, s) | (Inr v, s) \<Rightarrow> (f v, s))"

text \<open>A list comprehension whose element expression may raise: the first exception ends it.\<close>

fun comprehension :: "('a \<Rightarrow> error + 'b) \<Rightarrow> 'a list \<Rightarrow> error + 'b list" where
  "comprehension f [] = Inr []"
| "comprehension f (x # xs) =
     (case f x of
        Inl e \<Rightarrow> Inl e
      | Inr y \<Rightarrow> (case comprehension f xs of Inl e \<Rightarrow> Inl e | Inr ys \<Rightarrow> Inr (y # ys)))"

text \<open>\<^verbatim>\<open>if a:\<close> for an optional string argument: \<^verbatim>\<open>None\<close> and the empty string are false.\<close>

definition given :: "string option \<Rightarrow> bool" where
  "given a = (case a of None \<Rightarrow> False | Some t \<Rightarrow> t \<noteq> [])"

definition versions ::
  "('w, 'o) collaborators \<Rightarrow> kwargs \<Rightarrow> ('w, 'o) state \<Rightarrow> (error + json) \<times> ('w, 'o) state" where
  "versions E kw s =
     returning (kmd_request E ''GET'' ''/versions'' (kw_params kw) None (timeout_of kw) s)
       (\<lambda>res. getitem res ''versions'')"

definition list_wallets ::
  "('w, 'o) collaborators \<Rightarrow> kwargs \<Rightarrow> ('w, 'o) state \<Rightarrow> (error + json) \<times> ('w, 'o) state" where
  "list_wallets E kw s =
     returning (kmd_request E ''GET'' ''/wallets'' (kw_params kw) None (timeout_of kw) s)
       (\<lambda>res. case contains ''wallets'' res of
                 Inl e \<Rightarrow> Inl e
               | Inr present \<Rightarrow> if present then getitem res ''wallets'' else Inr (JArr []))"

definition create_wallet ::
  "('w, 'o) collaborators \<Rightarrow> string \<Rightarrow> string \<Rightarrow> string option \<Rightarrow> string option \<Rightarrow> kwargs \<Rightarrow>
   ('w, 'o) state \<Rightarrow> (error + json) \<times> ('w, 'o) state" where
  "create_wallet E name pswd driver_name master_deriv_key kw s =
     (let query = [(''wallet_driver_name'',
                     JStr (case driver_name of None \<Rightarrow> ''sqlite'' | Some d \<Rightarrow> d)),
                   (''wallet_name'', JStr name),
                   (''wallet_password'', JStr pswd)];
          query = (if given master_deriv_key
                   then query @ [(''master_derivation_key'', JStr (the master_deriv_key))]
                   else query)
      in returning (kmd_request E ''POST'' ''/wallet'' (kw_params kw) (Some query) (timeout_of kw) s)
           (\<lambda>res. getitem res ''wallet''))"

definition get_wallet ::
  "('w, 'o) collaborators \<Rightarrow> string \<Rightarrow> kwargs \<Rightarrow> ('w, 'o) state \<Rightarrow> (error + json) \<times> ('w, 'o) state" where
  "get_wallet E handle kw s =
     (let query = [(''wallet_handle_token'', JStr handle)]
      in returning (kmd_request E ''POST'' ''/wallet/info'' (kw_params kw) (Some query) (timeout_of kw) s)
           (\<lambda>res. getitem res ''wallet_handle''))"

definition init_wallet_handle ::
  "('w, 'o) collaborators \<Rightarrow> string \<Rightarrow> string \<Rightarrow> kwargs \<Rightarrow> ('w, 'o) state \<Rightarrow>
   (error + json) \<times> ('w, 'o) state" where
  "init_wallet_handle E ident password kw s =
     (let query = [(''wallet_id'', JStr ident), (''wallet_password'', JStr password)]
      in returning (kmd_request E ''POST'' ''/wallet/init'' (kw_params kw) (Some query) (timeout_of kw) s)
           (\<lambda>res. getitem res ''wallet_handle_token''))"

definition release_wallet_handle ::
  "('w, 'o) collaborators \<Rightarrow> string \<Rightarrow> kwargs \<Rightarrow> ('w, 'o) state \<Rightarrow> (error + bool) \<times> ('w, 'o) state" where
  "release_wallet_handle E handle kw s =
     (let query = [(''wallet_handle_token'', JStr handle)]
      in returning (kmd_request E ''POST'' ''/wallet/release'' (kw_params kw) (Some query) (timeout_of kw) s)
           (\<lambda>result. Inr (result = JObj [])))"

definition renew_wallet_handle ::
  "('w, 'o) collaborators \<Rightarrow> string \<Rightarrow> kwargs \<Rightarrow> ('w, 'o) state \<Rightarrow> (error + json) \<times> ('w, 'o) state" where
  "renew_wallet_handle E handle kw s =
     (let query = [(''wallet_handle_token'', JStr handle)]
      in returning (kmd_request E ''POST'' ''/wallet/renew'' (kw_params kw) (Some query) (timeout_of kw) s)
           (\<lambda>res. getitem res ''wallet_handle''))"

definition rename_wallet ::
  "('w, 'o) collaborators \<Rightarrow> string \<Rightarrow> string \<Rightarrow> string \<Rightarrow> kwargs \<Rightarrow> ('w, 'o) state \<Rightarrow>
   (error + json) \<times> ('w, 'o) state" where
  "rename_wallet E ident password new_name kw s =
     (let query = [(''wallet_id'', JStr ident), (''wallet_password'', JStr password),
                   (''wallet_name'', JStr new_name)]
      in returning (kmd_request E ''POST'' ''/wallet/rename'' (kw_params kw) (Some query) (timeout_of kw) s)
           (\<lambda>res. getitem res ''wallet''))"

definition export_master_derivation_key ::
  "('w, 'o) collaborators \<Rightarrow> string \<Rightarrow> string \<Rightarrow> kwargs \<Rightarrow> ('w, 'o) state \<Rightarrow>
   (error + json) \<times> ('w, 'o) state" where
  "export_master_derivation_key E handle password kw s =
     (let query = [(''wallet_handle_token'', JStr handle), (''wallet_password'', JStr password)]
      in returning (kmd_request E ''POST'' ''/master-key/export'' (kw_params kw) (Some query) (timeout_of kw) s)
           (\<lambda>result. getitem result ''master_derivation_key''))"

definition import_key ::
  "('w, 'o) collaborators \<Rightarrow> string \<Rightarrow> string \<Rightarrow> kwargs \<Rightarrow> ('w, 'o) state \<Rightarrow>
   (error + json) \<times> ('w, 'o) state" where
  "import_key E handle private_key kw s =
     (let query = [(''wallet_handle_token'', JStr handle), (''private_key'', JStr private_key)]
      in returning (kmd_request E ''POST'' ''/key/import'' (kw_params kw) (Some query) (timeout_of kw) s)
           (\<lambda>res. getitem res ''address''))"

definition export_key ::
  "('w, 'o) collaborators \<Rightarrow> string \<Rightarrow> string \<Rightarrow> string \<Rightarrow> kwargs \<Rightarrow> ('w, 'o) state \<Rightarrow>
   (error + json) \<times> ('w, 'o) state" where
  "export_key E handle password address kw s =
     (let query = [(''wallet_handle_token'', JStr handle), (''wallet_password'', JStr password),
                   (''address'', JStr address)]
      in returning (kmd_request E ''POST'' ''/key/export'' (kw_params kw) (Some query) (timeout_of kw) s)
           (\<lambda>res. getitem res ''private_key''))"

definition generate_key ::
  "('w, 'o) collaborators \<Rightarrow> string \<Rightarrow> bool \<Rightarrow> kwargs \<Rightarrow> ('w, 'o) state \<Rightarrow>
   (error + json) \<times> ('w, 'o) state" where
  "generate_key E handle display_mnemonic kw s =
     (let query = [(''wallet_handle_token'', JStr handle)]
      in returning (kmd_request E ''POST'' ''/key'' (kw_params kw) (Some query) (timeout_of kw) s)
           (\<lambda>res. getitem res ''address''))"

definition delete_key ::
  "('w, 'o) collaborators \<Rightarrow> string \<Rightarrow> string \<Rightarrow> string \<Rightarrow> kwargs \<Rightarrow> ('w, 'o) state \<Rightarrow>
   (error + bool) \<times> ('w, 'o) state" where
  "delete_key E handle password address kw s =
     (let query = [(''wallet_handle_token'', JStr handle), (''wallet_password'', JStr password),
                   (''address'', JStr address)]
      in returning (kmd_request E ''DELETE'' ''/key'' (kw_params kw) (Some query) (timeout_of kw) s)
           (\<lambda>result. Inr (result = JObj [])))"

definition list_keys ::
  "('w, 'o) collaborators \<Rightarrow> string \<Rightarrow> kwargs \<Rightarrow> ('w, 'o) state \<Rightarrow> (error + json) \<times> ('w, 'o) state" where
  "list_keys E handle kw s =
     (let query = [(''wallet_handle_token'', JStr handle)]
      in returning (kmd_request E ''POST'' ''/key/list'' (kw_params kw) (Some query) (timeout_of kw) s)
           (\<lambda>result. if truthy result then getitem result ''addresses'' else Inr (JArr [])))"

definition sign_transaction ::
  "('w, 'o) collaborators \<Rightarrow> string \<Rightarrow> string \<Rightarrow> 'o \<Rightarrow> string option \<Rightarrow> kwargs \<Rightarrow> ('w, 'o) state \<Rightarrow>
   (error + 'o) \<times> ('w, 'o) state" where
  "sign_transaction E handle password txn signing_address kw s =
     (let txn = msgpack_encode E txn;
          query = [(''wallet_handle_token'', JStr handle), (''wallet_password'', JStr password),
                   (''transaction'', JStr txn)];
          query = (if given signing_address
                   then query @ [(''public_key'', JStr (the signing_address))]
                   else query)
      in returning (kmd_request E ''POST'' ''/transaction/sign'' (kw_params kw) (Some query) (timeout_of kw) s)
           (\<lambda>result. case getitem result ''signed_transaction'' of
                        Inl e \<Rightarrow> Inl e
                      | Inr result \<Rightarrow>
                          (case msgpack_decode E result of
                             None \<Rightarrow> Inl MsgpackError
                           | Some stx \<Rightarrow> Inr stx)))"

definition list_multisig ::
  "('w, 'o) collaborators \<Rightarrow> string \<Rightarrow> kwargs \<Rightarrow> ('w, 'o) state \<Rightarrow> (error + json) \<times> ('w, 'o) state" where
  "list_multisig E handle kw s =
     (let query = [(''wallet_handle_token'', JStr handle)]
      in returning (kmd_request E ''POST'' ''/multisig/list'' (kw_params kw) (Some query) (timeout_of kw) s)
           (\<lambda>result. if result = JObj [] then Inr (JArr []) else getitem result ''addresses''))"

subsection \<open>Multisig accounts\<close>

text \<open>
  The class \<^verbatim>\<open>transaction.Multisig\<close> is not part of the file. The module reads
  \<^verbatim>\<open>version\<close>, \<^verbatim>\<open>threshold\<close> and \<^verbatim>\<open>subsigs[i].public_key\<close> of a multisig account, and
  constructs one from a version, a threshold and a list of addresses.
\<close>

record MultisigSubsig =
  public_key :: bytes
  signature :: "bytes option"

record Multisig =
  version :: json
  threshold :: json
  subsigs :: "MultisigSubsig list"

definition Multisig_init ::
  "('w, 'o) collaborators \<Rightarrow> json \<Rightarrow> json \<Rightarrow> string list \<Rightarrow> error + Multisig" where
  \<comment> \<open>Modelled from the spec: the constructor of \<^verbatim>\<open>transaction.Multisig\<close>, which is missing
      from the sources. A multisig account is a version, a threshold and the ordered list
      of its members; a member's address is the base32 form of its public key, so each
      address is decoded to the key of one unsigned subsig, in order.\<close>
  "Multisig_init E v t addresses =
     (case comprehension
             (\<lambda>a. case decode_address E a of
                     None \<Rightarrow> Inl AddressError
                   | Some k \<Rightarrow> Inr \<lparr>public_key = k, signature = None\<rparr>)
             addresses of
        Inl e \<Rightarrow> Inl e
      | Inr ss \<Rightarrow> Inr \<lparr>version = v, threshold = t, subsigs = ss\<rparr>)"

definition import_multisig ::
  "('w, 'o) collaborators \<Rightarrow> string \<Rightarrow> Multisig \<Rightarrow> kwargs \<Rightarrow> ('w, 'o) state \<Rightarrow>
   (error + json) \<times> ('w, 'o) state" where
  "import_multisig E handle msig kw s =
     (let query = [(''wallet_handle_token'', JStr handle),
                   (''multisig_version'', version msig),
                   (''threshold'', threshold msig),
                   (''pks'', JArr (map (\<lambda>sub. JStr (b64encode E (public_key sub))) (subsigs msig)))]
      in returning (kmd_request E ''POST'' ''/multisig/import'' (kw_params kw) (Some query) (timeout_of kw) s)
           (\<lambda>res. getitem res ''address''))"

text \<open>
  \<^verbatim>\<open>base64.b64decode\<close> takes a string (or bytes); any other JSON value is a
  \<^verbatim>\<open>TypeError\<close>.
\<close>

definition export_multisig ::
  "('w, 'o) collaborators \<Rightarrow> string \<Rightarrow> string \<Rightarrow> kwargs \<Rightarrow> ('w, 'o) state \<Rightarrow>
   (error + Multisig) \<times> ('w, 'o) state" where
  "export_multisig E handle address kw s =
     (let query = [(''wallet_handle_token'', JStr handle), (''address'', JStr address)]
      in returning (kmd_request E ''POST'' ''/multisig/export'' (kw_params kw) (Some query) (timeout_of kw) s)
           (\<lambda>result.
              case getitem result ''pks'' of
                Inl e \<Rightarrow> Inl e
              | Inr pks \<Rightarrow>
                  (case iterate pks of
                     Inl e \<Rightarrow> Inl e
                   | Inr ps \<Rightarrow>
                       (case comprehension
                               (\<lambda>p. case p of
                                       JStr t \<Rightarrow>
                                         (case b64decode E t of
                                            None \<Rightarrow> Inl BinasciiError
                                          | Some raw \<Rightarrow> Inr (encode_address E raw))
                                     | _ \<Rightarrow> Inl TypeError)
                               ps of
                          Inl e \<Rightarrow> Inl e
                        | Inr pks \<Rightarrow>
                            (case getitem result ''multisig_version'' of
                               Inl e \<Rightarrow> Inl e
                             | Inr v \<Rightarrow>
                                 (case getitem result ''threshold'' of
                                    Inl e \<Rightarrow> Inl e
                                  | Inr t \<Rightarrow> Multisig_init E v t pks))))))"

definition delete_multisig ::
  "('w, 'o) collaborators \<Rightarrow> string \<Rightarrow> string \<Rightarrow> string \<Rightarrow> kwargs \<Rightarrow> ('w, 'o) state \<Rightarrow>
   (error + bool) \<times> ('w, 'o) state" where
  "delete_multisig E handle password address kw s =
     (let query = [(''wallet_handle_token'', JStr handle), (''wallet_password'', JStr password),
                   (''address'', JStr address)]
      in returning (kmd_request E ''DELETE'' ''/multisig'' (kw_params kw) (Some query) (timeout_of kw) s)
           (\<lambda>result. Inr (result = JObj [])))"

text \<open>
  \<^verbatim>\<open>sign_multisig_transaction\<close> is handed its multisig transaction by reference:
  \<open>mtx\<close> is the address of the object in the heap, and the reference is what the
  method returns. A reference to no object stands for an argument without the
  attributes the method reads.
\<close>

definition sign_multisig_transaction ::
  "('w, 'o) collaborators \<Rightarrow> string \<Rightarrow> string \<Rightarrow> string \<Rightarrow> nat \<Rightarrow> kwargs \<Rightarrow> ('w, 'o) state \<Rightarrow>
   (error + nat) \<times> ('w, 'o) state" where
  "sign_multisig_transaction E handle password pk mtx kw s =
     (case heap s mtx of
        None \<Rightarrow> (Inl AttributeError, s)
      | Some obj \<Rightarrow>
          (let partial = json_dictify E (multisig obj);
               txn = msgpack_encode E (transaction obj)
           in case decode_address E pk of
                None \<Rightarrow> (Inl AddressError, s)
              | Some raw \<Rightarrow>
                  (let pk = b64encode E raw;
                       query = [(''wallet_handle_token'', JStr handle),
                                (''wallet_password'', JStr password),
                                (''transaction'', JStr txn),
                                (''public_key'', JStr pk),
                                (''partial_multisig'', partial)]
                   in case (case auth_addr obj of
                              Attr (Some a) \<Rightarrow>
                                (case decode_address E a of
                                   None \<Rightarrow> Inl AddressError
                                 | Some signer \<Rightarrow>
                                     Inr (query @ [(''signer'', JStr (b64encode E signer))]))
                            | _ \<Rightarrow> Inr query) of
                        Inl e \<Rightarrow> (Inl e, s)
                      | Inr query \<Rightarrow>
                          (case kmd_request E ''POST'' ''/multisig/sign'' (kw_params kw)
                                  (Some query) (timeout_of kw) s of
                             (Inl e, s) \<Rightarrow> (Inl e, s)
                           | (Inr res, s) \<Rightarrow>
                               (case getitem res ''multisig'' of
                                  Inl e \<Rightarrow> (Inl e, s)
                                | Inr result \<Rightarrow>
                                    (case msgpack_decode E result of
                                       None \<Rightarrow> (Inl MsgpackError, s)
                                     | Some msig \<Rightarrow>
                                         (Inr mtx,
                                          s\<lparr>heap := (heap s)(mtx :=
                                                map_option (\<lambda>obj. obj\<lparr>multisig := msig\<rparr>)
                                                  (heap s mtx))\<rparr>)))))))"

subsection \<open>Every operation, as one call\<close>

text \<open>
  The operations of the client as values, and the state a call leaves behind
  (whether it returned or raised).
\<close>

datatype 'o call =
    KmdRequest string string "(string \<times> string) list option" "(string \<times> json) list option" int
  | Versions
  | ListWallets
  | CreateWallet string string "string option" "string option"
  | GetWallet string
  | InitWalletHandle string string
  | ReleaseWalletHandle string
  | RenewWalletHandle string
  | RenameWallet string string string
  | ExportMasterDerivationKey string string
  | ImportKey string string
  | ExportKey string string string
  | GenerateKey string bool
  | DeleteKey string string string
  | ListKeys string
  | SignTransaction string string 'o "string option"
  | ListMultisig string
  | ImportMultisig string Multisig
  | ExportMultisig string string
  | DeleteMultisig string string string
  | SignMultisigTransaction string string string nat

fun state_after ::
  "('w, 'o) collaborators \<Rightarrow> 'o call \<Rightarrow> kwargs \<Rightarrow> ('w, 'o) state \<Rightarrow> ('w, 'o) state" where
  "state_after E (KmdRequest m r p d t) kw s = snd (kmd_request E m r p d t s)"
| "state_after E Versions kw s = snd (versions E kw s)"
| "state_after E ListWallets kw s = snd (list_wallets E kw s)"
| "state_after E (CreateWallet n p d k) kw s = snd (create_wallet E n p d k kw s)"
| "state_after E (GetWallet h) kw s = snd (get_wallet E h kw s)"
| "state_after E (InitWalletHandle i p) kw s = snd (init_wallet_handle E i p kw s)"
| "state_after E (ReleaseWalletHandle h) kw s = snd (release_wallet_handle E h kw s)"
| "state_after E (RenewWalletHandle h) kw s = snd (renew_wallet_handle E h kw s)"
| "state_after E (RenameWallet i p n) kw s = snd (rename_wallet E i p n kw s)"
| "state_after E (ExportMasterDerivationKey h p) kw s = snd (export_master_derivation_key E h p kw s)"
| "state_after E (ImportKey h k) kw s = snd (import_key E h k kw s)"
| "state_after E (ExportKey h p a) kw s = snd (export_key E h p a kw s)"
| "state_after E (GenerateKey h d) kw s = snd (generate_key E h d kw s)"
| "state_after E (DeleteKey h p a) kw s = snd (delete_key E h p a kw s)"
| "state_after E (ListKeys h) kw s = snd (list_keys E h kw s)"
| "state_after E (SignTransaction h p x a) kw s = snd (sign_transaction E h p x a kw s)"
| "state_after E (ListMultisig h) kw s = snd (list_multisig E h kw s)"
| "state_after E (ImportMultisig h m) kw s = snd (import_multisig E h m kw s)"
| "state_after E (ExportMultisig h a) kw s = snd (export_multisig E h a kw s)"
| "state_after E (DeleteMultisig h p a) kw s = snd (delete_multisig E h p a kw s)"
| "state_after E (SignMultisigTransaction h p k m) kw s = snd (sign_multisig_transaction E h p k m kw s)"

text \<open>
  The path and the query parameters a call gives to \<^verbatim>\<open>kmd_request\<close>, and its timeout.
\<close>

fun path_of :: "'o call \<Rightarrow> string" where
  "path_of (KmdRequest m r p d t) = r"
| "path_of Versions = ''/versions''"
| "path_of ListWallets = ''/wallets''"
| "path_of (CreateWallet n p d k) = ''/wallet''"
| "path_of (GetWallet h) = ''/wallet/info''"
| "path_of (InitWalletHandle i p) = ''/wallet/init''"
| "path_of (ReleaseWalletHandle h) = ''/wallet/release''"
| "path_of (RenewWalletHandle h) = ''/wallet/renew''"
| "path_of (RenameWallet i p n) = ''/wallet/rename''"
| "path_of (ExportMasterDerivationKey h p) = ''/master-key/export''"
| "path_of (ImportKey h k) = ''/key/import''"
| "path_of (ExportKey h p a) = ''/key/export''"
| "path_of (GenerateKey h d) = ''/key''"
| "path_of (DeleteKey h p a) = ''/key''"
| "path_of (ListKeys h) = ''/key/list''"
| "path_of (SignTransaction h p x a) = ''/transaction/sign''"
| "path_of (ListMultisig h) = ''/multisig/list''"
| "path_of (ImportMultisig h m) = ''/multisig/import''"
| "path_of (ExportMultisig h a) = ''/multisig/export''"
| "path_of (DeleteMultisig h p a) = ''/multisig''"
| "path_of (SignMultisigTransaction h p k m) = ''/multisig/sign''"

fun params_for :: "'o call \<Rightarrow> kwargs \<Rightarrow> (string \<times> string) list option" where
  "params_for (KmdRequest m r p d t) kw = p"
| "params_for _ kw = kw_params kw"

fun timeout_for :: "'o call \<Rightarrow> kwargs \<Rightarrow> int" where
  "timeout_for (KmdRequest m r p d t) kw = t"
| "timeout_for _ kw = timeout_of kw"

text \<open>
  The calls that raise before a request is handed to \<^verbatim>\<open>urlopen\<close>. In every operation
  the constructor of the request (line 56) raises when it finds no type in the URL.
  \<^verbatim>\<open>sign_multisig_transaction\<close> also reads attributes of \<open>mtx\<close> and decodes one or two
  addresses before it calls \<^verbatim>\<open>kmd_request\<close> (lines 443 to 458). The other steps before
  the request are dict displays and encoders of well-typed arguments.
\<close>

fun raises_before_kmd_request :: "('w, 'o) collaborators \<Rightarrow> 'o call \<Rightarrow> ('w, 'o) state \<Rightarrow> bool" where
  "raises_before_kmd_request E (SignMultisigTransaction h p k m) s =
     (case heap s m of
        None \<Rightarrow> True
      | Some obj \<Rightarrow>
          (case decode_address E k of
             None \<Rightarrow> True
           | Some raw \<Rightarrow>
               (case auth_addr obj of
                  Attr (Some a) \<Rightarrow> decode_address E a = None
                | _ \<Rightarrow> False)))"
| "raises_before_kmd_request E _ s = False"

definition raises_before_request ::
  "('w, 'o) collaborators \<Rightarrow> 'o call \<Rightarrow> kwargs \<Rightarrow> ('w, 'o) state \<Rightarrow> bool" where
  "raises_before_request E c kw s =
     (raises_before_kmd_request E c s \<or>
      url_type E (request_url E (self s) (path_of c) (params_for c kw)) = None)"

subsection \<open>Sample collaborators\<close>

text \<open>
  One set of collaborators to run the operations on: a transport that plays a script of
  outcomes (the state of the world is what is left of the script), and codecs cut down
  to what the examples need. The type of a URL is what stands before its first colon, if
  that is not empty and holds no slash. The bytes of a text are its character codes, and only bytes
  below 128 decode (a byte from \<open>0xF8\<close> on is in no UTF-8 text). \<open>sample_loads\<close>
  gives the value of each JSON text the examples use; a text it does not know is not
  JSON for it, as \<^verbatim>\<open>boom\<close> is not. A sample address is the letter A before the
  characters of the key, so a string that does not start with A does not decode.
\<close>

definition scripted_urlopen :: "Request \<Rightarrow> int \<Rightarrow> outcome list \<Rightarrow> outcome \<times> outcome list" where
  "scripted_urlopen req timeout w = (case w of [] \<Rightarrow> (TransportError, []) | r # rs \<Rightarrow> (r, rs))"

definition sample_url_type :: "string \<Rightarrow> string option" where
  "sample_url_type url =
     (let scheme = takeWhile (\<lambda>c. c \<noteq> CHR '':'' \<and> c \<noteq> CHR ''/'') url
      in if scheme \<noteq> [] \<and> take 1 (drop (length scheme) url) = '':'' then Some scheme else None)"

definition ascii_encode :: "string \<Rightarrow> bytes" where
  "ascii_encode t = map of_char t"

definition ascii_decode :: "bytes \<Rightarrow> string option" where
  "ascii_decode bs =
     (if list_all (\<lambda>b. b < 128) bs then Some (map (\<lambda>b. char_of (unat b)) bs) else None)"

definition sample_loads :: "string \<Rightarrow> json option" where
  \<open>sample_loads t =
     (if t = ''{}'' then Some (JObj [])
      else if t = ''{"message":"wallet not found"}''
        then Some (JObj [(''message'', JStr ''wallet not found'')])
      else if t = ''{"error":true}''
        then Some (JObj [(''error'', JBool True)])
      else if t = ''{"wallets":[{"id":"abc","name":"w"}]}''
        then Some (JObj [(''wallets'', JArr [JObj [(''id'', JStr ''abc''), (''name'', JStr ''w'')]])])
      else if t = ''{"addresses":["ADDR1","ADDR2"]}''
        then Some (JObj [(''addresses'', JArr [JStr ''ADDR1'', JStr ''ADDR2''])])
      else if t = ''{"address":"ADDR1"}''
        then Some (JObj [(''address'', JStr ''ADDR1'')])
      else if t = ''{"multisig_version":1,"threshold":2,"pks":["k1","k2"]}''
        then Some (JObj [(''multisig_version'', JInt 1), (''threshold'', JInt 2),
                         (''pks'', JArr [JStr ''k1'', JStr ''k2''])])
      else if t = ''{"multisig":"signed"}''
        then Some (JObj [(''multisig'', JStr ''signed'')])
      else None)\<close>

definition sample_decode_address :: "string \<Rightarrow> bytes option" where
  "sample_decode_address a =
     (case a of [] \<Rightarrow> None | c # cs \<Rightarrow> if c = CHR ''A'' then Some (map of_char cs) else None)"

definition sample :: "(outcome list, string) collaborators" where
  "sample =
     \<lparr>url_type = sample_url_type,
      urlopen = scripted_urlopen,
      urlencode = (\<lambda>ps. concat (map (\<lambda>(k, v). k @ ''='' @ v @ ''&'') ps)),
      json_dumps = (\<lambda>d. concat (map (\<lambda>(k, v). k @ '';'') d)),
      json_loads = sample_loads,
      utf8_encode = ascii_encode,
      utf8_decode = ascii_decode,
      b64encode = map (\<lambda>b. char_of (unat b)),
      b64decode = (\<lambda>t. Some (map of_char t)),
      encode_address = (\<lambda>k. CHR ''A'' # map (\<lambda>b. char_of (unat b)) k),
      decode_address = sample_decode_address,
      msgpack_encode = (\<lambda>obj. obj),
      msgpack_decode = (\<lambda>v. case v of JStr t \<Rightarrow> Some t | _ \<Rightarrow> None),
      json_dictify = JStr,
      no_auth = [''/health''],
      unversioned_paths = [''/health'', ''/versions'', ''/metrics'', ''/genesis''],
      kmd_auth_header = ''X-KMD-API-Token''\<rparr>"

definition sample_state :: "outcome list \<Rightarrow> (outcome list, string) state" where
  "sample_state script =
     \<lparr>self = KMDClient_init ''secret'' ''http://localhost:7833'',
      world = script,
      heap = Map.empty(0 \<mapsto> \<lparr>transaction = ''txn'', multisig = ''unsigned'', auth_addr = Attr None\<rparr>,
                       1 \<mapsto> \<lparr>transaction = ''txn'', multisig = ''unsigned'', auth_addr = Attr (Some ''Aauth'')\<rparr>),
      sent = []\<rparr>"

definition no_kwargs :: kwargs where
  "no_kwargs = \<lparr>kw_params = None, kw_timeout = None\<rparr>"

section \<open>Properties\<close>

subsection \<open>What a call of kmd\_request leaves behind and returns\<close>

lemma fst_returning:
  "fst (returning r f) = (case fst r of Inl e \<Rightarrow> Inl e | Inr v \<Rightarrow> f v)"
  by (cases r) (simp add: returning_def split: sum.splits)

lemma snd_returning: "snd (returning r f) = snd r"
  by (cases r) (simp add: returning_def split: sum.splits)

text \<open>A request is built exactly when the constructor finds a type in the URL.\<close>

lemma build_request_Inr:
  "build_request E client method requrl params data = Inr req \<longleftrightarrow>
     url_type E (request_url E client requrl params) \<noteq> None \<and>
     req = \<lparr>req_url = request_url E client requrl params,
            req_headers = (if requrl \<in> set (no_auth E) then []
                           else [(kmd_auth_header E, kmd_token client)]),
            req_method = method,
            req_data = (case data of
                          None \<Rightarrow> NoData
                        | Some d \<Rightarrow> if d \<noteq> [] then Body (utf8_encode E (json_dumps E d))
                                   else Unserialised d)\<rparr>"
  by (auto simp add: build_request_def Let_def)

lemma build_request_Inl:
  "build_request E client method requrl params data = Inl e \<longleftrightarrow>
     url_type E (request_url E client requrl params) = None \<and> e = ValueError"
  by (auto simp add: build_request_def Let_def)

text \<open>
  A call of \<^verbatim>\<open>kmd_request\<close> whose request is built hands that one request to the
  transport, and changes nothing else but the world behind it; a call whose request is
  not built changes nothing.
\<close>

lemma kmd_request_state:
  "snd (kmd_request E method requrl params data timeout s) =
     (case build_request E (self s) method requrl params data of
        Inl e \<Rightarrow> s
      | Inr req \<Rightarrow> s\<lparr>world := snd (urlopen E req timeout (world s)),
                     sent := sent s @ [(req, timeout)]\<rparr>)"
  by (simp add: kmd_request_def Let_def case_prod_beta
           split: outcome.splits option.splits sum.splits)

lemma kmd_request_sent:
  "build_request E (self s) method requrl params data = Inr req \<Longrightarrow>
     sent (snd (kmd_request E method requrl params data timeout s)) = sent s @ [(req, timeout)]"
  by (simp add: kmd_request_state)

lemma kmd_request_unsent:
  "build_request E (self s) method requrl params data = Inl e \<Longrightarrow>
     snd (kmd_request E method requrl params data timeout s) = s"
  by (simp add: kmd_request_state)

lemma kmd_request_unbuilt:
  "build_request E (self s) method requrl params data = Inl e \<Longrightarrow>
     kmd_request E method requrl params data timeout s = (Inl e, s)"
  by (simp add: kmd_request_def)

lemma build_request_fields:
  assumes "build_request E client method requrl params data = Inr req"
  shows "req_url req = request_url E client requrl params"
    and "req_headers req = (if requrl \<in> set (no_auth E) then []
                            else [(kmd_auth_header E, kmd_token client)])"
    and "req_method req = method"
    and "req_data req = (case data of
                           None \<Rightarrow> NoData
                         | Some d \<Rightarrow> if d \<noteq> [] then Body (utf8_encode E (json_dumps E d))
                                    else Unserialised d)"
  using assms by (simp_all add: build_request_Inr)

lemma kmd_request_eqD:
  assumes "kmd_request E method requrl params data timeout s = (x, s1)"
  shows "fst (kmd_request E method requrl params data timeout s) = x"
    and "s1 = (case build_request E (self s) method requrl params data of
                 Inl e \<Rightarrow> s
               | Inr req \<Rightarrow> s\<lparr>world := snd (urlopen E req timeout (world s)),
                              sent := sent s @ [(req, timeout)]\<rparr>)"
  using assms kmd_request_state [of E "method" requrl params data timeout s] by simp_all

text \<open>
  What a call of \<^verbatim>\<open>kmd_request\<close> returns or raises. A response that makes the
  transport raise \<^verbatim>\<open>HTTPError\<close> ends the call with \<^verbatim>\<open>KMDHTTPError\<close> of the text of
  its body, whatever the text is.
\<close>

lemma kmd_request_result:
  "fst (kmd_request E method requrl params data timeout s) =
     (case build_request E (self s) method requrl params data of
        Inl e \<Rightarrow> Inl e
      | Inr req \<Rightarrow>
          (case fst (urlopen E req timeout (world s)) of
             HTTPError code body \<Rightarrow>
               (case utf8_decode E body of
                  None \<Rightarrow> Inl UnicodeDecodeError
                | Some e \<Rightarrow> Inl (KMDHTTPError (JStr e)))
           | TransportError \<Rightarrow> Inl URLError
           | Response body \<Rightarrow>
               (case utf8_decode E body of
                  None \<Rightarrow> Inl UnicodeDecodeError
                | Some t \<Rightarrow>
                    (case json_loads E t of
                       None \<Rightarrow> Inl JSONDecodeError
                     | Some v \<Rightarrow> Inr v))))"
  by (simp add: kmd_request_def bare_except_def Let_def case_prod_beta
           split: outcome.splits option.splits sum.splits)

text \<open>
  \<^verbatim>\<open>kmd_request\<close> returns a value exactly when its request was built and the
  transport returned a response whose body is UTF-8 text that parses as JSON, and the
  value is what it parses to.
\<close>

lemma kmd_request_returns_iff:
  "fst (kmd_request E method requrl params data timeout s) = Inr v \<longleftrightarrow>
     (\<exists>req body t. build_request E (self s) method requrl params data = Inr req \<and>
                   fst (urlopen E req timeout (world s)) = Response body \<and>
                   utf8_decode E body = Some t \<and> json_loads E t = Some v)"
  by (auto simp add: kmd_request_result split: outcome.splits option.splits sum.splits)

subsection \<open>The request\<close>

text \<open>
  Claim C3. For every request path: if the path is not in the no-auth list of the
  constants module, the request handed to the transport carries one header, whose name
  is the constant \<^verbatim>\<open>kmd_auth_header\<close> and whose value is the client's token; if
  the path is in the list, the request carries no header at all. (A request is handed
  to the transport whenever it is built; when the constructor refuses the URL, none
  is.)
\<close>

theorem auth_header_unless_no_auth:
  "(\<forall>req. build_request E (self s) method requrl params data = Inr req \<longrightarrow>
      sent (snd (kmd_request E method requrl params data timeout s)) = sent s @ [(req, timeout)] \<and>
      (requrl \<notin> set (no_auth E) \<longrightarrow>
         req_headers req = [(kmd_auth_header E, kmd_token (self s))]) \<and>
      (requrl \<in> set (no_auth E) \<longrightarrow> req_headers req = [])) \<and>
   (\<forall>e. build_request E (self s) method requrl params data = Inl e \<longrightarrow>
      sent (snd (kmd_request E method requrl params data timeout s)) = sent s)"
proof (intro conjI allI impI)
  fix req
  assume b: "build_request E (self s) method requrl params data = Inr req"
  then show "sent (snd (kmd_request E method requrl params data timeout s)) = sent s @ [(req, timeout)]"
    by (rule kmd_request_sent)
  { assume "requrl \<notin> set (no_auth E)"
    with build_request_fields(2) [OF b]
    show "req_headers req = [(kmd_auth_header E, kmd_token (self s))]" by simp }
  { assume "requrl \<in> set (no_auth E)"
    with build_request_fields(2) [OF b]
    show "req_headers req = []" by simp }
next
  fix e
  assume "build_request E (self s) method requrl params data = Inl e"
  then show "sent (snd (kmd_request E method requrl params data timeout s)) = sent s"
    by (simp add: kmd_request_unsent)
qed

text \<open>
  With the sample constants: \<^verbatim>\<open>/key\<close> is sent with the token, \<^verbatim>\<open>/health\<close> without.
\<close>

theorem auth_header_unless_no_auth_witness:
  "map (\<lambda>d. req_headers (fst d))
     (sent (snd (kmd_request sample ''POST'' ''/key'' None None 30 (sample_state []))))
     = [[(''X-KMD-API-Token'', ''secret'')]] \<and>
   map (\<lambda>d. req_headers (fst d))
     (sent (snd (kmd_request sample ''GET'' ''/health'' None None 30 (sample_state []))))
     = [[]]"
proof -
  let ?s = "sample_state [] :: (outcome list, string) state"
  obtain r1 where b1: "build_request sample (self ?s) ''POST'' ''/key'' None None = Inr r1"
    by (simp add: build_request_Inr request_url_def sample_def sample_url_type_def
          sample_state_def KMDClient_init_def api_version_path_prefix_def)
  obtain r2 where b2: "build_request sample (self ?s) ''GET'' ''/health'' None None = Inr r2"
    by (simp add: build_request_Inr request_url_def sample_def sample_url_type_def
          sample_state_def KMDClient_init_def api_version_path_prefix_def)
  from auth_header_unless_no_auth [of sample ?s "''POST''" "''/key''" None None 30] b1
  have "sent (snd (kmd_request sample ''POST'' ''/key'' None None 30 ?s)) = sent ?s @ [(r1, 30)]"
    and "req_headers r1 = [(kmd_auth_header sample, kmd_token (self ?s))]"
    by (simp_all add: sample_def)
  moreover
  from auth_header_unless_no_auth [of sample ?s "''GET''" "''/health''" None None 30] b2
  have "sent (snd (kmd_request sample ''GET'' ''/health'' None None 30 ?s)) = sent ?s @ [(r2, 30)]"
    and "req_headers r2 = []"
    by (simp_all add: sample_def)
  ultimately show ?thesis
    by (simp add: sample_def sample_state_def KMDClient_init_def)
qed

text \<open>
  Claim C4. For every request path that is not in the list of unversioned paths, the
  URL handed to the transport is the client's address, then \<^verbatim>\<open>/v1\<close>, then the path as
  the caller gave it, then the query string if there is one: the prefix is put in front
  once. A path in the list is sent as it is, without the prefix. (A request is handed
  to the transport whenever it is built; when the constructor refuses the URL, none
  is.)
\<close>

theorem version_prefix_once:
  "(\<forall>req. build_request E (self s) method requrl params data = Inr req \<longrightarrow>
      sent (snd (kmd_request E method requrl params data timeout s)) = sent s @ [(req, timeout)] \<and>
      (requrl \<notin> set (unversioned_paths E) \<longrightarrow>
         req_url req =
           kmd_address (self s) @ ''/v1'' @ requrl @
             (case params of None \<Rightarrow> [] | Some ps \<Rightarrow> if ps \<noteq> [] then ''?'' @ urlencode E ps else [])) \<and>
      (requrl \<in> set (unversioned_paths E) \<longrightarrow>
         req_url req =
           kmd_address (self s) @ requrl @
             (case params of None \<Rightarrow> [] | Some ps \<Rightarrow> if ps \<noteq> [] then ''?'' @ urlencode E ps else []))) \<and>
   (\<forall>e. build_request E (self s) method requrl params data = Inl e \<longrightarrow>
      sent (snd (kmd_request E method requrl params data timeout s)) = sent s)"
proof (intro conjI allI impI)
  fix req
  assume b: "build_request E (self s) method requrl params data = Inr req"
  then show "sent (snd (kmd_request E method requrl params data timeout s)) = sent s @ [(req, timeout)]"
    by (rule kmd_request_sent)
  { assume "requrl \<notin> set (unversioned_paths E)"
    with build_request_fields(1) [OF b]
    show "req_url req =
           kmd_address (self s) @ ''/v1'' @ requrl @
             (case params of None \<Rightarrow> [] | Some ps \<Rightarrow> if ps \<noteq> [] then ''?'' @ urlencode E ps else [])"
      by (simp add: request_url_def api_version_path_prefix_def split: option.splits) }
  { assume "requrl \<in> set (unversioned_paths E)"
    with build_request_fields(1) [OF b]
    show "req_url req =
           kmd_address (self s) @ requrl @
             (case params of None \<Rightarrow> [] | Some ps \<Rightarrow> if ps \<noteq> [] then ''?'' @ urlencode E ps else [])"
      by (simp add: request_url_def split: option.splits) }
next
  fix e
  assume "build_request E (self s) method requrl params data = Inl e"
  then show "sent (snd (kmd_request E method requrl params data timeout s)) = sent s"
    by (simp add: kmd_request_unsent)
qed

text \<open>
  With the sample constants: \<^verbatim>\<open>/key\<close> goes out as \<^verbatim>\<open>/v1/key\<close>, \<^verbatim>\<open>/versions\<close> as it is,
  and a path that already starts with the prefix gets it once more.
\<close>

theorem version_prefix_once_witness:
  "map (\<lambda>d. req_url (fst d)) (sent (snd (kmd_request sample ''POST'' ''/key'' None None 30 (sample_state []))))
     = [''http://localhost:7833/v1/key''] \<and>
   map (\<lambda>d. req_url (fst d)) (sent (snd (kmd_request sample ''GET'' ''/versions'' None None 30 (sample_state []))))
     = [''http://localhost:7833/versions''] \<and>
   map (\<lambda>d. req_url (fst d)) (sent (snd (kmd_request sample ''GET'' ''/v1/key'' None None 30 (sample_state []))))
     = [''http://localhost:7833/v1/v1/key'']"
proof -
  let ?s = "sample_state [] :: (outcome list, string) state"
  note defs = build_request_Inr request_url_def sample_def sample_url_type_def
          sample_state_def KMDClient_init_def api_version_path_prefix_def
  obtain r1 where b1: "build_request sample (self ?s) ''POST'' ''/key'' None None = Inr r1"
    by (simp add: defs)
  obtain r2 where b2: "build_request sample (self ?s) ''GET'' ''/versions'' None None = Inr r2"
    by (simp add: defs)
  obtain r3 where b3: "build_request sample (self ?s) ''GET'' ''/v1/key'' None None = Inr r3"
    by (simp add: defs)
  from version_prefix_once [of sample ?s "''POST''" "''/key''" None None 30] b1
  have "sent (snd (kmd_request sample ''POST'' ''/key'' None None 30 ?s)) = sent ?s @ [(r1, 30)]"
    and "req_url r1 = kmd_address (self ?s) @ ''/v1'' @ ''/key'' @ []"
    by (simp_all add: sample_def)
  moreover
  from version_prefix_once [of sample ?s "''GET''" "''/versions''" None None 30] b2
  have "sent (snd (kmd_request sample ''GET'' ''/versions'' None None 30 ?s)) = sent ?s @ [(r2, 30)]"
    and "req_url r2 = kmd_address (self ?s) @ ''/versions'' @ []"
    by (simp_all add: sample_def)
  moreover
  from version_prefix_once [of sample ?s "''GET''" "''/v1/key''" None None 30] b3
  have "sent (snd (kmd_request sample ''GET'' ''/v1/key'' None None 30 ?s)) = sent ?s @ [(r3, 30)]"
    and "req_url r3 = kmd_address (self ?s) @ ''/v1'' @ ''/v1/key'' @ []"
    by (simp_all add: sample_def)
  ultimately show ?thesis
    by (simp add: sample_state_def KMDClient_init_def)
qed

text \<open>
  Claim C9. The parameter \<^verbatim>\<open>display_mnemonic\<close> of \<^verbatim>\<open>generate_key\<close> has no
  influence: for any two values of it, and the same handle, keyword arguments and
  state, the two calls are equal (the value returned or exception raised, and the state
  left behind), and the request sent has a body that is the JSON text of the dict
  whose only key is \<^verbatim>\<open>wallet_handle_token\<close>. (A request is sent whenever it is built;
  when the constructor refuses the URL, none is.)
\<close>

theorem generate_key_ignores_display_mnemonic:
  "generate_key E handle d1 kw s = generate_key E handle d2 kw s \<and>
   (\<forall>req. build_request E (self s) ''POST'' ''/key'' (kw_params kw)
             (Some [(''wallet_handle_token'', JStr handle)]) = Inr req \<longrightarrow>
      sent (snd (generate_key E handle d1 kw s)) = sent s @ [(req, timeout_of kw)] \<and>
      req_data req = Body (utf8_encode E (json_dumps E [(''wallet_handle_token'', JStr handle)]))) \<and>
   (\<forall>e. build_request E (self s) ''POST'' ''/key'' (kw_params kw)
           (Some [(''wallet_handle_token'', JStr handle)]) = Inl e \<longrightarrow>
      sent (snd (generate_key E handle d1 kw s)) = sent s)"
proof (intro conjI allI impI)
  show "generate_key E handle d1 kw s = generate_key E handle d2 kw s"
    by (simp add: generate_key_def)
next
  fix req
  assume b: "build_request E (self s) ''POST'' ''/key'' (kw_params kw)
               (Some [(''wallet_handle_token'', JStr handle)]) = Inr req"
  then show "sent (snd (generate_key E handle d1 kw s)) = sent s @ [(req, timeout_of kw)]"
    by (simp add: generate_key_def snd_returning kmd_request_sent)
  from build_request_fields(4) [OF b]
  show "req_data req = Body (utf8_encode E (json_dumps E [(''wallet_handle_token'', JStr handle)]))"
    by simp
next
  fix e
  assume "build_request E (self s) ''POST'' ''/key'' (kw_params kw)
            (Some [(''wallet_handle_token'', JStr handle)]) = Inl e"
  then show "sent (snd (generate_key E handle d1 kw s)) = sent s"
    by (simp add: generate_key_def snd_returning kmd_request_unsent)
qed

text \<open>With a daemon that answers \<^verbatim>\<open>{"address":"ADDR1"}\<close>, both calls return \<^verbatim>\<open>ADDR1\<close>.\<close>

theorem generate_key_ignores_display_mnemonic_witness:
  \<open>generate_key sample ''tok1'' True no_kwargs (sample_state [Response (ascii_encode ''{"address":"ADDR1"}'')])
     = generate_key sample ''tok1'' False no_kwargs (sample_state [Response (ascii_encode ''{"address":"ADDR1"}'')]) \<and>
   fst (generate_key sample ''tok1'' False no_kwargs (sample_state [Response (ascii_encode ''{"address":"ADDR1"}'')]))
     = Inr (JStr ''ADDR1'') \<and>
   map (\<lambda>d. req_data (fst d))
     (sent (snd (generate_key sample ''tok1'' True no_kwargs
                   (sample_state [Response (ascii_encode ''{"address":"ADDR1"}'')]))))
     = [Body (ascii_encode ''wallet_handle_token;'')]\<close>
proof -
  let ?s = \<open>sample_state [Response (ascii_encode ''{"address":"ADDR1"}'')]\<close>
  have r: "fst (generate_key sample ''tok1'' False no_kwargs ?s) = Inr (JStr ''ADDR1'')"
    by code_simp
  obtain req where b: "build_request sample (self ?s) ''POST'' ''/key'' (kw_params no_kwargs)
                         (Some [(''wallet_handle_token'', JStr ''tok1'')]) = Inr req"
    by (simp add: build_request_Inr request_url_def sample_def sample_url_type_def
          sample_state_def KMDClient_init_def api_version_path_prefix_def no_kwargs_def)
  from generate_key_ignores_display_mnemonic [of sample "''tok1''" True no_kwargs ?s False] b
  have "generate_key sample ''tok1'' True no_kwargs ?s = generate_key sample ''tok1'' False no_kwargs ?s"
    and "sent (snd (generate_key sample ''tok1'' True no_kwargs ?s)) = sent ?s @ [(req, timeout_of no_kwargs)]"
    and "req_data req = Body (utf8_encode sample (json_dumps sample [(''wallet_handle_token'', JStr ''tok1'')]))"
    by blast+
  moreover have "utf8_encode sample (json_dumps sample [(''wallet_handle_token'', JStr ''tok1'')])
                   = ascii_encode ''wallet_handle_token;''"
    by (simp add: sample_def)
  moreover have "sent ?s = []"
    by (simp add: sample_state_def)
  ultimately show ?thesis
    using r by simp
qed

subsection \<open>Errors of the daemon\<close>

text \<open>
  Every response that makes the transport raise \<^verbatim>\<open>HTTPError\<close> and whose body is
  UTF-8 text ends the call with \<^verbatim>\<open>KMDHTTPError\<close> of that text: what line 65 raises
  never leaves the inner \<^verbatim>\<open>try\<close>.
\<close>

lemma http_error_carries_body_text:
  assumes "build_request E (self s) method requrl params data = Inr req"
      and "fst (urlopen E req timeout (world s)) = HTTPError code body"
      and "utf8_decode E body = Some e"
  shows "fst (kmd_request E method requrl params data timeout s) = Inl (KMDHTTPError (JStr e))"
  using assms by (simp add: kmd_request_result)

text \<open>
  Claim C1. The claim: for a response that is not 2xx, \<^verbatim>\<open>kmd_request\<close> raises
  \<^verbatim>\<open>KMDHTTPError\<close>, which carries the \<^verbatim>\<open>message\<close> field of the body when the body is
  a JSON object with such a field, and the text of the body otherwise. The code does
  not do the first: for a status 500 with the body \<^verbatim>\<open>{"message":"wallet not found"}\<close>,
  line 65 raises \<^verbatim>\<open>KMDHTTPError\<close> with \<^verbatim>\<open>wallet not found\<close> inside the \<^verbatim>\<open>try\<close>, the
  bare \<^verbatim>\<open>except:\<close> of line 66 catches it, and the call ends with \<^verbatim>\<open>KMDHTTPError\<close>
  carrying the whole text of the body.
\<close>

theorem http_error_message_is_caught:
  \<open>raised_in_try sample ''{"message":"wallet not found"}''
     = KMDHTTPError (JStr ''wallet not found'') \<and>
   fst (kmd_request sample ''POST'' ''/wallet/init'' None None 30
          (sample_state [HTTPError 500 (ascii_encode ''{"message":"wallet not found"}'')]))
     = Inl (KMDHTTPError (JStr ''{"message":"wallet not found"}''))\<close>
proof -
  have \<open>raised_in_try sample ''{"message":"wallet not found"}''
          = KMDHTTPError (JStr ''wallet not found'')\<close>
    by (simp add: raised_in_try_def sample_def sample_loads_def)
  moreover
  have \<open>fst (kmd_request sample ''POST'' ''/wallet/init'' None None 30
          (sample_state [HTTPError 500 (ascii_encode ''{"message":"wallet not found"}'')]))
     = Inl (KMDHTTPError (JStr ''{"message":"wallet not found"}''))\<close>
    by code_simp
  ultimately show ?thesis
    by (intro conjI)
qed

text \<open>
  The body \<^verbatim>\<open>boom\<close>, which is not JSON, is carried as it is; and a body that is not
  UTF-8 (the byte \<open>0xFF\<close> is in no UTF-8 text) ends the call at line 63 with
  \<^verbatim>\<open>UnicodeDecodeError\<close>.
\<close>

lemma http_error_other_bodies:
  "fst (kmd_request sample ''POST'' ''/wallet/init'' None None 30
          (sample_state [HTTPError 500 (ascii_encode ''boom'')]))
     = Inl (KMDHTTPError (JStr ''boom'')) \<and>
   fst (kmd_request sample ''POST'' ''/wallet/init'' None None 30
          (sample_state [HTTPError 500 [0xFF]]))
     = Inl UnicodeDecodeError"
  by code_simp

subsection \<open>Requests without data\<close>

text \<open>
  Claim C10. The claim: \<^verbatim>\<open>kmd_request\<close> treats an empty mapping as an absent one, so
  that with \<^verbatim>\<open>data\<close> an empty dict the request carries no body, as with \<^verbatim>\<open>None\<close>.
  The code does not: line 53 skips the serialisation of a false \<^verbatim>\<open>data\<close>, as line 51
  skips the query string of a false \<^verbatim>\<open>params\<close>, but \<^verbatim>\<open>data\<close> is not set to
  \<^verbatim>\<open>None\<close>, and line 57 hands the empty dict to the request. The request for
  \<^verbatim>\<open>data={}\<close> has the dict as its data, the request for \<^verbatim>\<open>data=None\<close> has none.
\<close>

theorem empty_data_reaches_the_request:
  "map (\<lambda>d. req_data (fst d))
     (sent (snd (kmd_request sample ''POST'' ''/key'' None (Some []) 30 (sample_state []))))
     = [Unserialised []] \<and>
   map (\<lambda>d. req_data (fst d))
     (sent (snd (kmd_request sample ''POST'' ''/key'' None None 30 (sample_state []))))
     = [NoData]"
  by code_simp

subsection \<open>Operations that answer with a truth value\<close>

lemma true_iff_empty_object:
  "fst (returning (kmd_request E method requrl params data timeout s) (\<lambda>result. Inr (result = JObj [])))
     = Inr True \<longleftrightarrow>
   (\<exists>req body t. build_request E (self s) method requrl params data = Inr req \<and>
                 fst (urlopen E req timeout (world s)) = Response body \<and>
                 utf8_decode E body = Some t \<and> json_loads E t = Some (JObj []))"
proof -
  have "fst (returning (kmd_request E method requrl params data timeout s) (\<lambda>result. Inr (result = JObj [])))
          = Inr True \<longleftrightarrow>
        fst (kmd_request E method requrl params data timeout s) = Inr (JObj [])"
    by (simp add: fst_returning split: sum.splits)
  then show ?thesis
    by (simp add: kmd_request_returns_iff)
qed

text \<open>
  Claim C2. Each of \<^verbatim>\<open>release_wallet_handle\<close>, \<^verbatim>\<open>delete_key\<close> and
  \<^verbatim>\<open>delete_multisig\<close> returns \<^verbatim>\<open>True\<close> if and only if the daemon answered its request
  with a 2xx response whose body parses to the empty JSON object. Every other outcome,
  a body with an \<^verbatim>\<open>error\<close> field included, is \<^verbatim>\<open>False\<close> or an exception.
\<close>

theorem true_only_for_empty_object:
  "(fst (release_wallet_handle E handle kw s) = Inr True \<longleftrightarrow>
      (\<exists>req body t.
         build_request E (self s) ''POST'' ''/wallet/release'' (kw_params kw)
           (Some [(''wallet_handle_token'', JStr handle)]) = Inr req \<and>
         fst (urlopen E req (timeout_of kw) (world s)) = Response body \<and>
         utf8_decode E body = Some t \<and> json_loads E t = Some (JObj []))) \<and>
   (fst (delete_key E handle password address kw s) = Inr True \<longleftrightarrow>
      (\<exists>req body t.
         build_request E (self s) ''DELETE'' ''/key'' (kw_params kw)
           (Some [(''wallet_handle_token'', JStr handle), (''wallet_password'', JStr password),
                  (''address'', JStr address)]) = Inr req \<and>
         fst (urlopen E req (timeout_of kw) (world s)) = Response body \<and>
         utf8_decode E body = Some t \<and> json_loads E t = Some (JObj []))) \<and>
   (fst (delete_multisig E handle password address kw s) = Inr True \<longleftrightarrow>
      (\<exists>req body t.
         build_request E (self s) ''DELETE'' ''/multisig'' (kw_params kw)
           (Some [(''wallet_handle_token'', JStr handle), (''wallet_password'', JStr password),
                  (''address'', JStr address)]) = Inr req \<and>
         fst (urlopen E req (timeout_of kw) (world s)) = Response body \<and>
         utf8_decode E body = Some t \<and> json_loads E t = Some (JObj [])))"
  unfolding release_wallet_handle_def delete_key_def delete_multisig_def Let_def
  by (intro conjI true_iff_empty_object)

text \<open>
  The body \<^verbatim>\<open>{}\<close> gives \<^verbatim>\<open>True\<close>, the body \<^verbatim>\<open>{"error":true}\<close> gives
  \<^verbatim>\<open>False\<close>, and a body that is not JSON raises.
\<close>

theorem true_only_for_empty_object_witness:
  \<open>fst (release_wallet_handle sample ''tok1'' no_kwargs (sample_state [Response (ascii_encode ''{}'')]))
     = Inr True \<and>
   fst (delete_key sample ''tok1'' ''pw'' ''ADDR1'' no_kwargs
          (sample_state [Response (ascii_encode ''{"error":true}'')]))
     = Inr False \<and>
   fst (delete_multisig sample ''tok1'' ''pw'' ''ADDR1'' no_kwargs
          (sample_state [Response (ascii_encode ''boom'')]))
     = Inl JSONDecodeError\<close>
proof -
  let ?s = "sample_state [Response (ascii_encode ''{}'')]"
  obtain req where b: "build_request sample (self ?s) ''POST'' ''/wallet/release'' (kw_params no_kwargs)
                         (Some [(''wallet_handle_token'', JStr ''tok1'')]) = Inr req"
    by (simp add: build_request_Inr request_url_def sample_def sample_url_type_def
          sample_state_def KMDClient_init_def api_version_path_prefix_def no_kwargs_def)
  have "\<exists>req body t.
          build_request sample (self ?s) ''POST'' ''/wallet/release'' (kw_params no_kwargs)
            (Some [(''wallet_handle_token'', JStr ''tok1'')]) = Inr req \<and>
          fst (urlopen sample req (timeout_of no_kwargs) (world ?s)) = Response body \<and>
          utf8_decode sample body = Some t \<and> json_loads sample t = Some (JObj [])"
  proof (intro exI conjI)
    show "build_request sample (self ?s) ''POST'' ''/wallet/release'' (kw_params no_kwargs)
            (Some [(''wallet_handle_token'', JStr ''tok1'')]) = Inr req"
      by (rule b)
    show "fst (urlopen sample req (timeout_of no_kwargs) (world ?s)) = Response (ascii_encode ''{}'')"
      by (simp add: sample_def sample_state_def scripted_urlopen_def)
    show "utf8_decode sample (ascii_encode ''{}'') = Some ''{}''"
      by code_simp
    show "json_loads sample ''{}'' = Some (JObj [])"
      by (simp add: sample_def sample_loads_def)
  qed
  then have "fst (release_wallet_handle sample ''tok1'' no_kwargs ?s) = Inr True"
    using true_only_for_empty_object [of sample "''tok1''" no_kwargs ?s] by blast
  moreover
  have \<open>fst (delete_key sample ''tok1'' ''pw'' ''ADDR1'' no_kwargs
          (sample_state [Response (ascii_encode ''{"error":true}'')])) = Inr False\<close>
    by code_simp
  moreover
  have \<open>fst (delete_multisig sample ''tok1'' ''pw'' ''ADDR1'' no_kwargs
          (sample_state [Response (ascii_encode ''boom'')])) = Inl JSONDecodeError\<close>
    by code_simp
  ultimately show ?thesis by simp
qed

subsection \<open>Operations that list\<close>

lemma contains_key: "contains k (JObj kvs) = Inr (map_of kvs k \<noteq> None)"
  by (simp add: map_of_eq_None_iff)

text \<open>
  Claim C5. Let the daemon answer with a JSON object. \<^verbatim>\<open>list_wallets\<close> returns the
  empty list when the object has no \<^verbatim>\<open>wallets\<close> key; \<^verbatim>\<open>list_keys\<close> and
  \<^verbatim>\<open>list_multisig\<close> return the empty list when the object is empty; none of them
  raises then. When the object holds a list of items under the key the operation reads
  (\<^verbatim>\<open>wallets\<close>, \<^verbatim>\<open>addresses\<close>), the operation returns that very list: the same
  items, as many, in the same order.
\<close>

theorem lists_empty_or_as_reported:
  "(fst (kmd_request E ''GET'' ''/wallets'' (kw_params kw) None (timeout_of kw) s) = Inr (JObj kvs) \<longrightarrow>
      (map_of kvs ''wallets'' = None \<longrightarrow> fst (list_wallets E kw s) = Inr (JArr [])) \<and>
      (\<forall>items. map_of kvs ''wallets'' = Some (JArr items) \<longrightarrow>
                 fst (list_wallets E kw s) = Inr (JArr items))) \<and>
   (fst (kmd_request E ''POST'' ''/key/list'' (kw_params kw)
           (Some [(''wallet_handle_token'', JStr handle)]) (timeout_of kw) s) = Inr (JObj kvs) \<longrightarrow>
      (kvs = [] \<longrightarrow> fst (list_keys E handle kw s) = Inr (JArr [])) \<and>
      (\<forall>items. map_of kvs ''addresses'' = Some (JArr items) \<longrightarrow>
                 fst (list_keys E handle kw s) = Inr (JArr items))) \<and>
   (fst (kmd_request E ''POST'' ''/multisig/list'' (kw_params kw)
           (Some [(''wallet_handle_token'', JStr handle)]) (timeout_of kw) s) = Inr (JObj kvs) \<longrightarrow>
      (kvs = [] \<longrightarrow> fst (list_multisig E handle kw s) = Inr (JArr [])) \<and>
      (\<forall>items. map_of kvs ''addresses'' = Some (JArr items) \<longrightarrow>
                 fst (list_multisig E handle kw s) = Inr (JArr items)))"
proof (intro conjI impI allI)
  assume "fst (kmd_request E ''GET'' ''/wallets'' (kw_params kw) None (timeout_of kw) s) = Inr (JObj kvs)"
  then have r: "fst (list_wallets E kw s) =
                  (if map_of kvs ''wallets'' \<noteq> None then getitem (JObj kvs) ''wallets'' else Inr (JArr []))"
    by (simp add: list_wallets_def fst_returning contains_key del: contains.simps)
  { assume "map_of kvs ''wallets'' = None"
    with r show "fst (list_wallets E kw s) = Inr (JArr [])" by simp }
  { fix items assume "map_of kvs ''wallets'' = Some (JArr items)"
    with r show "fst (list_wallets E kw s) = Inr (JArr items)" by simp }
next
  assume "fst (kmd_request E ''POST'' ''/key/list'' (kw_params kw)
           (Some [(''wallet_handle_token'', JStr handle)]) (timeout_of kw) s) = Inr (JObj kvs)"
  then have r: "fst (list_keys E handle kw s) =
                  (if kvs \<noteq> [] then getitem (JObj kvs) ''addresses'' else Inr (JArr []))"
    by (simp add: list_keys_def fst_returning)
  { assume "kvs = []"
    with r show "fst (list_keys E handle kw s) = Inr (JArr [])" by simp }
  { fix items assume "map_of kvs ''addresses'' = Some (JArr items)"
    with r show "fst (list_keys E handle kw s) = Inr (JArr items)" by auto }
next
  assume "fst (kmd_request E ''POST'' ''/multisig/list'' (kw_params kw)
           (Some [(''wallet_handle_token'', JStr handle)]) (timeout_of kw) s) = Inr (JObj kvs)"
  then have r: "fst (list_multisig E handle kw s) =
                  (if kvs = [] then Inr (JArr []) else getitem (JObj kvs) ''addresses'')"
    by (simp add: list_multisig_def fst_returning)
  { assume "kvs = []"
    with r show "fst (list_multisig E handle kw s) = Inr (JArr [])" by simp }
  { fix items assume "map_of kvs ''addresses'' = Some (JArr items)"
    with r show "fst (list_multisig E handle kw s) = Inr (JArr items)" by auto }
qed


text \<open>
  A daemon with one wallet, a daemon that answers \<^verbatim>\<open>{}\<close>, and a daemon with two
  multisig addresses.
\<close>

theorem lists_empty_or_as_reported_witness:
  \<open>fst (list_wallets sample no_kwargs
          (sample_state [Response (ascii_encode ''{"wallets":[{"id":"abc","name":"w"}]}'')]))
     = Inr (JArr [JObj [(''id'', JStr ''abc''), (''name'', JStr ''w'')]]) \<and>
   fst (list_wallets sample no_kwargs (sample_state [Response (ascii_encode ''{}'')]))
     = Inr (JArr []) \<and>
   fst (list_keys sample ''tok1'' no_kwargs (sample_state [Response (ascii_encode ''{}'')]))
     = Inr (JArr []) \<and>
   fst (list_multisig sample ''tok1'' no_kwargs
          (sample_state [Response (ascii_encode ''{"addresses":["ADDR1","ADDR2"]}'')]))
     = Inr (JArr [JStr ''ADDR1'', JStr ''ADDR2''])\<close>
proof -
  let ?w = \<open>sample_state [Response (ascii_encode ''{"wallets":[{"id":"abc","name":"w"}]}'')]\<close>
  let ?e = \<open>sample_state [Response (ascii_encode ''{}'')]\<close>
  let ?a = \<open>sample_state [Response (ascii_encode ''{"addresses":["ADDR1","ADDR2"]}'')]\<close>
  let ?q = "Some [(''wallet_handle_token'', JStr ''tok1'')]"
  have w: "fst (kmd_request sample ''GET'' ''/wallets'' (kw_params no_kwargs) None (timeout_of no_kwargs) ?w)
             = Inr (JObj [(''wallets'', JArr [JObj [(''id'', JStr ''abc''), (''name'', JStr ''w'')]])])"
    by code_simp
  have e0: "fst (kmd_request sample ''GET'' ''/wallets'' (kw_params no_kwargs) None (timeout_of no_kwargs) ?e)
             = Inr (JObj [])"
    by code_simp
  have e1: "fst (kmd_request sample ''POST'' ''/key/list'' (kw_params no_kwargs) ?q (timeout_of no_kwargs) ?e)
             = Inr (JObj [])"
    by code_simp
  have a: "fst (kmd_request sample ''POST'' ''/multisig/list'' (kw_params no_kwargs) ?q (timeout_of no_kwargs) ?a)
             = Inr (JObj [(''addresses'', JArr [JStr ''ADDR1'', JStr ''ADDR2''])])"
    by code_simp
  from w lists_empty_or_as_reported
         [of sample no_kwargs ?w "[(''wallets'', JArr [JObj [(''id'', JStr ''abc''), (''name'', JStr ''w'')]])]"]
  have 1: "fst (list_wallets sample no_kwargs ?w)
             = Inr (JArr [JObj [(''id'', JStr ''abc''), (''name'', JStr ''w'')]])"
    by simp
  from e0 lists_empty_or_as_reported [of sample no_kwargs ?e "[]"]
  have 2: "fst (list_wallets sample no_kwargs ?e) = Inr (JArr [])"
    by simp
  from e1 lists_empty_or_as_reported [of sample no_kwargs ?e "[]" "''tok1''"]
  have 3: "fst (list_keys sample ''tok1'' no_kwargs ?e) = Inr (JArr [])"
    by simp
  from a lists_empty_or_as_reported
         [of sample no_kwargs ?a "[(''addresses'', JArr [JStr ''ADDR1'', JStr ''ADDR2''])]" "''tok1''"]
  have 4: "fst (list_multisig sample ''tok1'' no_kwargs ?a) = Inr (JArr [JStr ''ADDR1'', JStr ''ADDR2''])"
    by simp
  from 1 2 3 4 show ?thesis by simp
qed

subsection \<open>Exporting and importing a multisig account\<close>

text \<open>A comprehension returns a list exactly when every element expression returned.\<close>

lemma comprehension_Inr:
  "comprehension f xs = Inr ys \<longleftrightarrow> list_all2 (\<lambda>x y. f x = Inr y) xs ys"
proof (induction xs arbitrary: ys)
  case Nil
  then show ?case by auto
next
  case (Cons x xs)
  show ?case
  proof (cases "f x")
    case (Inl e)
    then show ?thesis by (auto simp: list_all2_Cons1)
  next
    case (Inr y)
    then show ?thesis
      using Cons.IH by (cases "comprehension f xs") (auto simp: list_all2_Cons1)
  qed
qed

text \<open>
  Claim C6. Let \<^verbatim>\<open>export_multisig\<close> return a multisig account from the daemon's
  response, and let the address codec give back the key it encoded wherever it decodes
  its own output. Then the account holds the response's \<^verbatim>\<open>multisig_version\<close> and
  \<^verbatim>\<open>threshold\<close> and, in the order of the response's \<^verbatim>\<open>pks\<close>, the keys these
  decode to from base64; and \<^verbatim>\<open>import_multisig\<close> on that account (with any handle,
  in any state) sends this version, this threshold and these keys, each encoded in
  base64, in this order.
\<close>

theorem export_then_import_round_trip:
  assumes resp: "fst (kmd_request E ''POST'' ''/multisig/export'' (kw_params kw)
                        (Some [(''wallet_handle_token'', JStr handle), (''address'', JStr address)])
                        (timeout_of kw) s) = Inr res"
      and exported: "fst (export_multisig E handle address kw s) = Inr msig"
      and codec: "\<forall>k k'. decode_address E (encode_address E k) = Some k' \<longrightarrow> k' = k"
  shows "\<exists>v t pks items ks.
           getitem res ''multisig_version'' = Inr v \<and>
           getitem res ''threshold'' = Inr t \<and>
           getitem res ''pks'' = Inr pks \<and> iterate pks = Inr items \<and>
           list_all2 (\<lambda>p k. \<exists>x. p = JStr x \<and> b64decode E x = Some k) items ks \<and>
           version msig = v \<and> threshold msig = t \<and> map public_key (subsigs msig) = ks \<and>
           (\<forall>req. build_request E (self s') ''POST'' ''/multisig/import'' (kw_params kw')
                    (Some [(''wallet_handle_token'', JStr handle'),
                           (''multisig_version'', v),
                           (''threshold'', t),
                           (''pks'', JArr (map (\<lambda>k. JStr (b64encode E k)) ks))]) = Inr req \<longrightarrow>
              sent (snd (import_multisig E handle' msig kw' s')) = sent s' @ [(req, timeout_of kw')] \<and>
              req_data req =
                Body (utf8_encode E (json_dumps E
                        [(''wallet_handle_token'', JStr handle'),
                         (''multisig_version'', v),
                         (''threshold'', t),
                         (''pks'', JArr (map (\<lambda>k. JStr (b64encode E k)) ks))])))"
proof -
  let ?f = "\<lambda>p. case p of
                  JStr x \<Rightarrow> (case b64decode E x of
                               None \<Rightarrow> Inl BinasciiError
                             | Some raw \<Rightarrow> Inr (encode_address E raw))
                | _ \<Rightarrow> Inl TypeError"
  let ?g = "\<lambda>a. case decode_address E a of
                  None \<Rightarrow> Inl AddressError
                | Some k \<Rightarrow> Inr \<lparr>public_key = k, signature = None\<rparr>"
  from resp exported obtain pks items addrs v t where
        pks: "getitem res ''pks'' = Inr pks"
    and items: "iterate pks = Inr items"
    and addrs: "comprehension ?f items = Inr addrs"
    and v: "getitem res ''multisig_version'' = Inr v"
    and t: "getitem res ''threshold'' = Inr t"
    and init: "Multisig_init E v t addrs = Inr msig"
    by (auto simp: export_multisig_def fst_returning split: sum.splits)
  from init obtain ss where
        ss: "comprehension ?g addrs = Inr ss"
    and msig: "msig = \<lparr>version = v, threshold = t, subsigs = ss\<rparr>"
    by (auto simp: Multisig_init_def split: sum.splits)
  have key: "\<exists>x. p = JStr x \<and> b64decode E x = Some (public_key sub)"
    if "?f p = Inr a" and "?g a = Inr sub" for p a sub
  proof -
    from that(1) obtain x k where p: "p = JStr x" and k: "b64decode E x = Some k"
      and a: "a = encode_address E k"
      by (auto split: json.splits option.splits)
    from that(2) a obtain k' where "decode_address E (encode_address E k) = Some k'"
      and "public_key sub = k'"
      by (auto split: option.splits)
    with codec have "public_key sub = k" by blast
    with p k show ?thesis by simp
  qed
  from addrs have 1: "list_all2 (\<lambda>p a. ?f p = Inr a) items addrs"
    by (simp only: comprehension_Inr)
  from ss have 2: "list_all2 (\<lambda>a sub. ?g a = Inr sub) addrs ss"
    by (simp only: comprehension_Inr)
  have "list_all2 (\<lambda>p sub. \<exists>x. p = JStr x \<and> b64decode E x = Some (public_key sub)) items ss"
  proof (rule list_all2_trans [OF _ 1 2])
    fix p a sub
    assume "?f p = Inr a" and "?g a = Inr sub"
    then show "\<exists>x. p = JStr x \<and> b64decode E x = Some (public_key sub)"
      by (rule key)
  qed
  then have ks: "list_all2 (\<lambda>p k. \<exists>x. p = JStr x \<and> b64decode E x = Some k) items
                   (map public_key ss)"
    by (simp add: list_all2_map2)
  have "\<forall>req. build_request E (self s') ''POST'' ''/multisig/import'' (kw_params kw')
                 (Some [(''wallet_handle_token'', JStr handle'),
                        (''multisig_version'', v),
                        (''threshold'', t),
                        (''pks'', JArr (map (\<lambda>k. JStr (b64encode E k)) (map public_key ss)))]) = Inr req \<longrightarrow>
          sent (snd (import_multisig E handle' msig kw' s')) = sent s' @ [(req, timeout_of kw')] \<and>
          req_data req =
            Body (utf8_encode E (json_dumps E
                    [(''wallet_handle_token'', JStr handle'),
                     (''multisig_version'', v),
                     (''threshold'', t),
                     (''pks'', JArr (map (\<lambda>k. JStr (b64encode E k)) (map public_key ss)))]))"
  proof (intro allI impI conjI)
    fix req
    assume b: "build_request E (self s') ''POST'' ''/multisig/import'' (kw_params kw')
                 (Some [(''wallet_handle_token'', JStr handle'),
                        (''multisig_version'', v),
                        (''threshold'', t),
                        (''pks'', JArr (map (\<lambda>k. JStr (b64encode E k)) (map public_key ss)))]) = Inr req"
    then show "sent (snd (import_multisig E handle' msig kw' s')) = sent s' @ [(req, timeout_of kw')]"
      by (simp add: import_multisig_def snd_returning kmd_request_sent msig comp_def)
    from build_request_fields(4) [OF b]
    show "req_data req =
            Body (utf8_encode E (json_dumps E
                    [(''wallet_handle_token'', JStr handle'),
                     (''multisig_version'', v),
                     (''threshold'', t),
                     (''pks'', JArr (map (\<lambda>k. JStr (b64encode E k)) (map public_key ss)))]))"
      by simp
  qed
  with pks items v t ks msig show ?thesis
    by (intro exI [of _ v] exI [of _ t] exI [of _ pks] exI [of _ items]
          exI [of _ "map public_key ss"]) simp
qed

text \<open>The sample address codec decodes what it encoded.\<close>

lemma byte_char_byte: "of_char (char_of (unat (b::8 word))) = b"
proof -
  have "unat b < 256"
    using unsigned_less [of b] by simp
  then have "word_of_nat (unat b mod 256) = b"
    by simp
  moreover have "of_char (char_of (unat b)) = (word_of_nat (of_char (char_of (unat b))) :: 8 word)"
    by (rule of_nat_of_char [symmetric])
  ultimately show ?thesis
    by simp
qed

lemma sample_address_round_trip:
  "decode_address sample (encode_address sample k) = Some k"
  by (simp add: sample_def sample_decode_address_def comp_def byte_char_byte)

text \<open>
  A daemon that exports version 1, threshold 2 and the keys \<^verbatim>\<open>k1\<close>, \<^verbatim>\<open>k2\<close>: the
  import of the exported account sends them back.
\<close>

theorem export_then_import_round_trip_witness:
  \<open>fst (export_multisig sample ''tok1'' ''MSIG'' no_kwargs
          (sample_state [Response (ascii_encode
             ''{"multisig_version":1,"threshold":2,"pks":["k1","k2"]}'')]))
     = Inr \<lparr>version = JInt 1, threshold = JInt 2,
             subsigs = [\<lparr>public_key = [0x6B, 0x31], signature = None\<rparr>,
                        \<lparr>public_key = [0x6B, 0x32], signature = None\<rparr>]\<rparr> \<and>
   build_request sample (self (sample_state [])) ''POST'' ''/multisig/import'' None
     (Some [(''wallet_handle_token'', JStr ''tok2''),
            (''multisig_version'', JInt 1),
            (''threshold'', JInt 2),
            (''pks'', JArr [JStr ''k1'', JStr ''k2''])])
     = Inr \<lparr>req_url = ''http://localhost:7833/v1/multisig/import'',
             req_headers = [(''X-KMD-API-Token'', ''secret'')],
             req_method = ''POST'',
             req_data = Body (ascii_encode ''wallet_handle_token;multisig_version;threshold;pks;'')\<rparr> \<and>
   sent (snd (import_multisig sample ''tok2''
                \<lparr>version = JInt 1, threshold = JInt 2,
                 subsigs = [\<lparr>public_key = [0x6B, 0x31], signature = None\<rparr>,
                            \<lparr>public_key = [0x6B, 0x32], signature = None\<rparr>]\<rparr>
                no_kwargs (sample_state [])))
     = [(\<lparr>req_url = ''http://localhost:7833/v1/multisig/import'',
          req_headers = [(''X-KMD-API-Token'', ''secret'')],
          req_method = ''POST'',
          req_data = Body (ascii_encode ''wallet_handle_token;multisig_version;threshold;pks;'')\<rparr>,
         30)]\<close>
proof -
  let ?s = \<open>sample_state [Response (ascii_encode
             ''{"multisig_version":1,"threshold":2,"pks":["k1","k2"]}'')]\<close>
  let ?res = "JObj [(''multisig_version'', JInt 1), (''threshold'', JInt 2),
                    (''pks'', JArr [JStr ''k1'', JStr ''k2''])]"
  let ?m = "\<lparr>version = JInt 1, threshold = JInt 2,
             subsigs = [\<lparr>public_key = [0x6B, 0x31], signature = None\<rparr>,
                        \<lparr>public_key = [0x6B, 0x32], signature = None\<rparr>]\<rparr>"
  let ?req = "\<lparr>req_url = ''http://localhost:7833/v1/multisig/import'',
               req_headers = [(''X-KMD-API-Token'', ''secret'')],
               req_method = ''POST'',
               req_data = Body (ascii_encode ''wallet_handle_token;multisig_version;threshold;pks;'')\<rparr>"
  have resp: "fst (kmd_request sample ''POST'' ''/multisig/export'' (kw_params no_kwargs)
                     (Some [(''wallet_handle_token'', JStr ''tok1''), (''address'', JStr ''MSIG'')])
                     (timeout_of no_kwargs) ?s) = Inr ?res"
    by code_simp
  have exported: "fst (export_multisig sample ''tok1'' ''MSIG'' no_kwargs ?s) = Inr ?m"
    by code_simp
  have codec: "\<forall>k k'. decode_address sample (encode_address sample k) = Some k' \<longrightarrow> k' = k"
    by (simp add: sample_address_round_trip)
  have b: "build_request sample (self (sample_state [])) ''POST'' ''/multisig/import'' None
             (Some [(''wallet_handle_token'', JStr ''tok2''),
                    (''multisig_version'', JInt 1),
                    (''threshold'', JInt 2),
                    (''pks'', JArr [JStr ''k1'', JStr ''k2''])]) = Inr ?req"
    by (simp add: build_request_def request_url_def sample_def sample_url_type_def
          sample_state_def KMDClient_init_def api_version_path_prefix_def)
  from export_then_import_round_trip [OF resp exported codec, of "sample_state []" no_kwargs "''tok2''"]
  obtain v t ks where v: "getitem ?res ''multisig_version'' = Inr v"
    and t: "getitem ?res ''threshold'' = Inr t"
    and ks: "map public_key (subsigs ?m) = ks"
    and sent: "\<forall>req. build_request sample (self (sample_state [])) ''POST'' ''/multisig/import''
                       (kw_params no_kwargs)
                       (Some [(''wallet_handle_token'', JStr ''tok2''), (''multisig_version'', v),
                              (''threshold'', t),
                              (''pks'', JArr (map (\<lambda>k. JStr (b64encode sample k)) ks))]) = Inr req \<longrightarrow>
                 sent (snd (import_multisig sample ''tok2'' ?m no_kwargs (sample_state []))) =
                   sent (sample_state []) @ [(req, timeout_of no_kwargs)]"
    by blast
  from v have v': "v = JInt 1" by simp
  from t have t': "t = JInt 2" by simp
  from ks have ks': "ks = [[0x6B, 0x31], [0x6B, 0x32]]" by simp
  have pks: "map (\<lambda>k. JStr (b64encode sample k)) [[0x6B, 0x31], [0x6B, 0x32]]
               = [JStr ''k1'', JStr ''k2'']"
    by code_simp
  from sent b have "sent (snd (import_multisig sample ''tok2'' ?m no_kwargs (sample_state []))) =
                 sent (sample_state []) @ [(?req, timeout_of no_kwargs)]"
    unfolding v' t' ks' pks by (simp add: no_kwargs_def)
  then have "sent (snd (import_multisig sample ''tok2'' ?m no_kwargs (sample_state []))) = [(?req, 30)]"
    by (simp add: sample_state_def no_kwargs_def timeout_of_def)
  with exported b show ?thesis
    by (intro conjI)
qed

subsection \<open>Signing a multisig transaction\<close>

text \<open>
  What \<^verbatim>\<open>sign_multisig_transaction\<close> does from line 460 on, for the query it has
  built.
\<close>

lemma sign_after_query:
  assumes obj: "heap s mtx = Some obj"
      and run: "(case kmd_request E ''POST'' ''/multisig/sign'' (kw_params kw) (Some q) (timeout_of kw) s of
                   (Inl e, s) \<Rightarrow> (Inl e, s)
                 | (Inr res, s) \<Rightarrow>
                     (case getitem res ''multisig'' of
                        Inl e \<Rightarrow> (Inl e, s)
                      | Inr result \<Rightarrow>
                          (case msgpack_decode E result of
                             None \<Rightarrow> (Inl MsgpackError, s)
                           | Some msig \<Rightarrow>
                               (Inr mtx,
                                s\<lparr>heap := (heap s)(mtx := map_option (\<lambda>obj. obj\<lparr>multisig := msig\<rparr>)
                                                             (heap s mtx))\<rparr>)))) = (result, s')"
  shows "(case build_request E (self s) ''POST'' ''/multisig/sign'' (kw_params kw) (Some q) of
            Inl e \<Rightarrow> s' = s \<and> result = Inl e
          | Inr req \<Rightarrow>
              self s' = self s \<and>
              sent s' = sent s @ [(req, timeout_of kw)] \<and>
              world s' = snd (urlopen E req (timeout_of kw) (world s)) \<and>
              (\<forall>r. result = Inr r \<longrightarrow>
                 r = mtx \<and>
                 (\<exists>res x msig.
                    fst (kmd_request E ''POST'' ''/multisig/sign'' (kw_params kw) (Some q) (timeout_of kw) s)
                      = Inr res \<and>
                    getitem res ''multisig'' = Inr x \<and> msgpack_decode E x = Some msig \<and>
                    heap s' = (heap s)(mtx \<mapsto> obj\<lparr>multisig := msig\<rparr>))) \<and>
              (\<forall>e. result = Inl e \<longrightarrow> heap s' = heap s))"
proof (cases "build_request E (self s) ''POST'' ''/multisig/sign'' (kw_params kw) (Some q)")
  case (Inl e)
  with run kmd_request_unbuilt [OF Inl, of "timeout_of kw"] show ?thesis
    by auto
next
  case b: (Inr req)
  show ?thesis
  proof (cases "kmd_request E ''POST'' ''/multisig/sign'' (kw_params kw) (Some q) (timeout_of kw) s")
    case (Pair x s1)
    from kmd_request_eqD(2) [OF Pair] b
    have s1: "s1 = s\<lparr>world := snd (urlopen E req (timeout_of kw) (world s)),
                      sent := sent s @ [(req, timeout_of kw)]\<rparr>"
      by simp
    note f = kmd_request_eqD(1) [OF Pair]
    show ?thesis
    proof (cases x)
      case (Inl e)
      with run Pair s1 b obj show ?thesis by auto
    next
      case (Inr res)
      show ?thesis
      proof (cases "getitem res ''multisig''")
        case (Inl e)
        with run Pair s1 b obj Inr show ?thesis by auto
      next
        case x: (Inr x)
        show ?thesis
        proof (cases "msgpack_decode E x")
          case None
          with run Pair s1 b obj Inr x show ?thesis by auto
        next
          case (Some msig)
          with run Pair s1 b obj Inr x f show ?thesis by auto
        qed
      qed
    qed
  qed
qed




subsection \<open>Every call: the client, the round trip, the heap\<close>

lemma kmd_request_round_trip:
  "self (snd (kmd_request E method requrl params data timeout s)) = self s"
  "heap (snd (kmd_request E method requrl params data timeout s)) = heap s"
  "url_type E (request_url E (self s) requrl params) = None \<Longrightarrow>
     snd (kmd_request E method requrl params data timeout s) = s"
  "url_type E (request_url E (self s) requrl params) = Some y \<Longrightarrow>
     \<exists>req. sent (snd (kmd_request E method requrl params data timeout s)) = sent s @ [(req, timeout)] \<and>
           world (snd (kmd_request E method requrl params data timeout s)) =
             snd (urlopen E req timeout (world s))"
proof -
  show "self (snd (kmd_request E method requrl params data timeout s)) = self s"
    by (simp add: kmd_request_state split: sum.splits)
  show "heap (snd (kmd_request E method requrl params data timeout s)) = heap s"
    by (simp add: kmd_request_state split: sum.splits)
  show "snd (kmd_request E method requrl params data timeout s) = s"
    if "url_type E (request_url E (self s) requrl params) = None"
    using that by (simp add: kmd_request_unsent build_request_Inl)
  show "\<exists>req. sent (snd (kmd_request E method requrl params data timeout s)) = sent s @ [(req, timeout)] \<and>
           world (snd (kmd_request E method requrl params data timeout s)) =
             snd (urlopen E req timeout (world s))"
    if "url_type E (request_url E (self s) requrl params) = Some y"
  proof -
    from that obtain req where "build_request E (self s) method requrl params data = Inr req"
      by (simp add: build_request_Inr)
    then show ?thesis
      by (simp add: kmd_request_state)
  qed
qed

lemma sign_multisig_transaction_round_trip:
  assumes "snd (sign_multisig_transaction E h p k m kw s) = s'"
  shows "self s' = self s \<and>
         (if raises_before_request E (SignMultisigTransaction h p k m) kw s then s' = s
          else \<exists>req. sent s' = sent s @ [(req, timeout_of kw)] \<and>
                     world s' = snd (urlopen E req (timeout_of kw) (world s)))"
proof (cases "heap s m")
  case None
  with assms show ?thesis
    by (auto simp: sign_multisig_transaction_def raises_before_request_def)
next
  case obj: (Some obj)
  show ?thesis
  proof (cases "decode_address E k")
    case None
    with assms obj show ?thesis
      by (auto simp: sign_multisig_transaction_def raises_before_request_def)
  next
    case raw: (Some raw)
    let ?q0 = "[(''wallet_handle_token'', JStr h),
                (''wallet_password'', JStr p),
                (''transaction'', JStr (msgpack_encode E (transaction obj))),
                (''public_key'', JStr (b64encode E raw)),
                (''partial_multisig'', json_dictify E (multisig obj))]"
    let ?qr = "(case auth_addr obj of
                  Attr (Some a) \<Rightarrow>
                    (case decode_address E a of
                       None \<Rightarrow> Inl AddressError
                     | Some signer \<Rightarrow> Inr (?q0 @ [(''signer'', JStr (b64encode E signer))]))
                | _ \<Rightarrow> Inr ?q0)"
    have early: "raises_before_kmd_request E (SignMultisigTransaction h p k m) s
                   \<longleftrightarrow> (\<exists>e. ?qr = Inl e)"
      using obj raw by (auto split: attribute.splits option.splits)
    from obj raw have run:
      "(case ?qr of
          Inl e \<Rightarrow> (Inl e, s)
        | Inr query \<Rightarrow>
            (case kmd_request E ''POST'' ''/multisig/sign'' (kw_params kw) (Some query) (timeout_of kw) s of
               (Inl e, s) \<Rightarrow> (Inl e, s)
             | (Inr res, s) \<Rightarrow>
                 (case getitem res ''multisig'' of
                    Inl e \<Rightarrow> (Inl e, s)
                  | Inr result \<Rightarrow>
                      (case msgpack_decode E result of
                         None \<Rightarrow> (Inl MsgpackError, s)
                       | Some msig \<Rightarrow>
                           (Inr m,
                            s\<lparr>heap := (heap s)(m := map_option (\<lambda>obj. obj\<lparr>multisig := msig\<rparr>)
                                                       (heap s m))\<rparr>)))))
         = (fst (sign_multisig_transaction E h p k m kw s), s')"
      using assms by (simp add: sign_multisig_transaction_def Let_def prod_eq_iff)
    show ?thesis
    proof (cases ?qr)
      case (Inl e)
      with run early show ?thesis
        by (auto simp: raises_before_request_def)
    next
      case (Inr q)
      with early have no: "\<not> raises_before_kmd_request E (SignMultisigTransaction h p k m) s"
        by simp
      from run Inr have
        "(case kmd_request E ''POST'' ''/multisig/sign'' (kw_params kw) (Some q) (timeout_of kw) s of
               (Inl e, s) \<Rightarrow> (Inl e, s)
             | (Inr res, s) \<Rightarrow>
                 (case getitem res ''multisig'' of
                    Inl e \<Rightarrow> (Inl e, s)
                  | Inr result \<Rightarrow>
                      (case msgpack_decode E result of
                         None \<Rightarrow> (Inl MsgpackError, s)
                       | Some msig \<Rightarrow>
                           (Inr m,
                            s\<lparr>heap := (heap s)(m := map_option (\<lambda>obj. obj\<lparr>multisig := msig\<rparr>)
                                                       (heap s m))\<rparr>))))
           = (fst (sign_multisig_transaction E h p k m kw s), s')"
        by simp
      note after = sign_after_query [OF obj this]
      show ?thesis
      proof (cases "build_request E (self s) ''POST'' ''/multisig/sign'' (kw_params kw) (Some q)")
        case (Inl e)
        then have "url_type E (request_url E (self s) ''/multisig/sign'' (kw_params kw)) = None"
          by (simp add: build_request_Inl)
        with after Inl show ?thesis
          by (simp add: raises_before_request_def)
      next
        case b: (Inr req)
        then have "url_type E (request_url E (self s) ''/multisig/sign'' (kw_params kw)) \<noteq> None"
          by (simp add: build_request_Inr)
        with no have "\<not> raises_before_request E (SignMultisigTransaction h p k m) kw s"
          by (simp add: raises_before_request_def)
        moreover
        from after [unfolded b sum.case]
        have "self s' = self s" and "sent s' = sent s @ [(req, timeout_of kw)]"
          and "world s' = snd (urlopen E req (timeout_of kw) (world s))"
          by blast+
        ultimately show ?thesis
          by auto
      qed
    qed
  qed
qed

text \<open>
  Claim C8, as the code has it. Every operation leaves the client (\<^verbatim>\<open>kmd_token\<close>,
  \<^verbatim>\<open>kmd_address\<close>) as it was, and the client has no other attribute to save
  anything in. A call makes exactly one round trip, in which one request is handed to
  the transport and the world moves by that one exchange, unless it raises before its
  request is handed over: then it changes nothing and makes no round trip. That happens
  in every operation when the constructor of the request finds no type in the URL, and
  in \<^verbatim>\<open>sign_multisig_transaction\<close> also when \<open>mtx\<close> lacks the attributes read or an
  address does not decode. No operation but \<^verbatim>\<open>sign_multisig_transaction\<close> changes an
  object of the caller.
\<close>

theorem calls_keep_client_and_send_at_most_once:
  "self (state_after E c kw s) = self s \<and>
   (if raises_before_request E c kw s then state_after E c kw s = s
    else \<exists>req. sent (state_after E c kw s) = sent s @ [(req, timeout_for c kw)] \<and>
               world (state_after E c kw s) = snd (urlopen E req (timeout_for c kw) (world s))) \<and>
   ((\<forall>h p k m. c \<noteq> SignMultisigTransaction h p k m) \<longrightarrow>
      heap (state_after E c kw s) = heap s)"
proof (cases c)
  case (SignMultisigTransaction h p k m)
  with sign_multisig_transaction_round_trip [OF refl, of E h p k m kw s] show ?thesis
    by simp
qed (auto simp add: kmd_request_round_trip(1-3) snd_returning Let_def raises_before_request_def
       versions_def list_wallets_def create_wallet_def get_wallet_def init_wallet_handle_def
       release_wallet_handle_def renew_wallet_handle_def rename_wallet_def
       export_master_derivation_key_def import_key_def export_key_def generate_key_def
       delete_key_def list_keys_def sign_transaction_def list_multisig_def import_multisig_def
       export_multisig_def delete_multisig_def
     intro: kmd_request_round_trip(4))


text \<open>
  Two calls of \<^verbatim>\<open>list_keys\<close> in a row: the client is unchanged, each call sends a
  request of its own and takes the next answer of the daemon. The same call on a
  client whose address has no type leaves everything as it was.
\<close>

theorem calls_keep_client_and_send_at_most_once_witness:
  \<open>self (state_after sample (ListKeys ''tok1'') no_kwargs
           (sample_state [Response (ascii_encode ''{"addresses":["ADDR1","ADDR2"]}''),
                          Response (ascii_encode ''{}'')]))
     = \<lparr>kmd_token = ''secret'', kmd_address = ''http://localhost:7833''\<rparr> \<and>
   length (sent (state_after sample (ListKeys ''tok1'') no_kwargs
           (sample_state [Response (ascii_encode ''{"addresses":["ADDR1","ADDR2"]}''),
                          Response (ascii_encode ''{}'')]))) = 1 \<and>
   world (state_after sample (ListKeys ''tok1'') no_kwargs
           (sample_state [Response (ascii_encode ''{"addresses":["ADDR1","ADDR2"]}''),
                          Response (ascii_encode ''{}'')]))
     = [Response (ascii_encode ''{}'')] \<and>
   length (sent (state_after sample (ListKeys ''tok1'') no_kwargs
           (state_after sample (ListKeys ''tok1'') no_kwargs
              (sample_state [Response (ascii_encode ''{"addresses":["ADDR1","ADDR2"]}''),
                             Response (ascii_encode ''{}'')])))) = 2 \<and>
   world (state_after sample (ListKeys ''tok1'') no_kwargs
           (state_after sample (ListKeys ''tok1'') no_kwargs
              (sample_state [Response (ascii_encode ''{"addresses":["ADDR1","ADDR2"]}''),
                             Response (ascii_encode ''{}'')])))
     = [] \<and>
   state_after sample (ListKeys ''tok1'') no_kwargs
     ((sample_state [Response (ascii_encode ''{}'')])\<lparr>self := KMDClient_init ''secret'' ''localhost''\<rparr>)
     = (sample_state [Response (ascii_encode ''{}'')])\<lparr>self := KMDClient_init ''secret'' ''localhost''\<rparr>\<close>
proof -
  let ?s = \<open>sample_state [Response (ascii_encode ''{"addresses":["ADDR1","ADDR2"]}''),
                          Response (ascii_encode ''{}'')]\<close>
  let ?c = "ListKeys ''tok1'' :: string call"
  let ?s1 = "state_after sample ?c no_kwargs ?s"
  let ?s2 = "state_after sample ?c no_kwargs ?s1"
  let ?n = "(sample_state [Response (ascii_encode ''{}'')])\<lparr>self := KMDClient_init ''secret'' ''localhost''\<rparr>"
  have u: "snd (urlopen sample req t w) = tl w" for req t w
    by (cases w) (simp_all add: sample_def scripted_urlopen_def)
  have ok: "\<not> raises_before_request sample ?c no_kwargs s"
    if "self s = \<lparr>kmd_token = ''secret'', kmd_address = ''http://localhost:7833''\<rparr>"
    for s :: "(outcome list, string) state"
    using that
    by (simp add: raises_before_request_def request_url_def sample_def sample_url_type_def
          api_version_path_prefix_def no_kwargs_def)
  have refused: "raises_before_request sample ?c no_kwargs ?n"
    by (simp add: raises_before_request_def request_url_def sample_def sample_url_type_def
          api_version_path_prefix_def no_kwargs_def sample_state_def KMDClient_init_def)
  have self0: "self ?s = \<lparr>kmd_token = ''secret'', kmd_address = ''http://localhost:7833''\<rparr>"
    by (simp add: sample_state_def KMDClient_init_def)
  from calls_keep_client_and_send_at_most_once [of sample ?c no_kwargs ?s] ok [OF self0]
  obtain req1 where self1: "self ?s1 = self ?s"
    and sent1: "sent ?s1 = sent ?s @ [(req1, timeout_for ?c no_kwargs)]"
    and world1: "world ?s1 = snd (urlopen sample req1 (timeout_for ?c no_kwargs) (world ?s))"
    by auto
  from self1 self0
  have self1': "self ?s1 = \<lparr>kmd_token = ''secret'', kmd_address = ''http://localhost:7833''\<rparr>"
    by simp
  from calls_keep_client_and_send_at_most_once [of sample ?c no_kwargs ?s1] ok [OF self1']
  obtain req2 where sent2: "sent ?s2 = sent ?s1 @ [(req2, timeout_for ?c no_kwargs)]"
    and world2: "world ?s2 = snd (urlopen sample req2 (timeout_for ?c no_kwargs) (world ?s1))"
    by auto
  from calls_keep_client_and_send_at_most_once [of sample ?c no_kwargs ?n] refused
  have none: "state_after sample ?c no_kwargs ?n = ?n"
    by simp
  from sent1 have "length (sent ?s1) = 1"
    by (simp add: sample_state_def)
  moreover from world1 have w1: "world ?s1 = [Response (ascii_encode ''{}'')]"
    by (simp add: u sample_state_def)
  moreover from sent2 sent1 have "length (sent ?s2) = 2"
    by (simp add: sample_state_def)
  moreover from world2 w1 have "world ?s2 = []"
    by (simp add: u)
  ultimately show ?thesis
    using self1' none by (intro conjI)
qed

text \<open>
  Claim C8 as stated gives every call exactly one round trip. A call of
  \<^verbatim>\<open>sign_multisig_transaction\<close> whose \<^verbatim>\<open>public_key\<close> is not an address raises at
  line 445, where the address is decoded: no request is sent, and the daemon's answer
  is still waiting.
\<close>

theorem no_request_for_undecodable_signer_counterexample:
  \<open>fst (sign_multisig_transaction sample ''tok1'' ''pw'' ''bogus'' 0 no_kwargs
          (sample_state [Response (ascii_encode ''{"multisig":"signed"}'')]))
     = Inl AddressError \<and>
   sent (state_after sample (SignMultisigTransaction ''tok1'' ''pw'' ''bogus'' 0) no_kwargs
           (sample_state [Response (ascii_encode ''{"multisig":"signed"}'')]))
     = [] \<and>
   world (state_after sample (SignMultisigTransaction ''tok1'' ''pw'' ''bogus'' 0) no_kwargs
           (sample_state [Response (ascii_encode ''{"multisig":"signed"}'')]))
     = [Response (ascii_encode ''{"multisig":"signed"}'')]\<close>
  by (simp add: sign_multisig_transaction_def sample_def sample_state_def sample_decode_address_def)


end
